theory Spec2Isabelle
  imports Main "HOL-Library.Word"
begin

section \<open>The native pasteboard adapter (pbhelper.swift)\<close>

subsection \<open>Data\<close>

text \<open>
  A Swift \<open>Data\<close> value is a list of bytes; \<open>char\<close> is exactly one byte. A Swift
  \<open>String\<close> is represented by its UTF-8 code units, so \<open>Data(text.utf8)\<close> is the
  identity on the representation and \<open>String(data:encoding: .utf8)\<close> is a validity
  check (\<open>utf8_valid\<close> below).
\<close>

type_synonym Data = "char list"

text \<open>
  The functions of Foundation and AppKit that the adapter calls are not part of the
  repository. They are the fields of a record that every command takes as its first
  argument, so every theorem below holds for every behaviour of these functions:
  \<^item> \<open>utf8_valid d\<close>: \<open>String(data: d, encoding: .utf8)\<close> is not nil;
  \<^item> \<open>trimmingWhitespace s\<close>: \<open>s.trimmingCharacters(in: .whitespacesAndNewlines)\<close>;
  \<^item> \<open>base64Decoded s\<close>: \<open>Data(base64Encoded: s)\<close>;
  \<^item> \<open>base64EncodedString d\<close>: \<open>d.base64EncodedString()\<close>;
  \<^item> \<open>bitmapImageRep d\<close>: \<open>NSBitmapImageRep(data: d)\<close>;
  \<^item> \<open>representation rep ft\<close>: \<open>rep.representation(using: ft, properties: [:])\<close>;
  \<^item> \<open>jsonSerialization xs\<close>: \<open>try? JSONSerialization.data(withJSONObject: xs)\<close>.
\<close>

datatype FileType = tiff | png

record 'img platform =
  utf8_valid :: "Data \<Rightarrow> bool"
  trimmingWhitespace :: "string \<Rightarrow> string"
  base64Decoded :: "string \<Rightarrow> Data option"
  base64EncodedString :: "Data \<Rightarrow> string"
  bitmapImageRep :: "Data \<Rightarrow> 'img option"
  representation :: "'img \<Rightarrow> FileType \<Rightarrow> Data option"
  jsonSerialization :: "string list \<Rightarrow> Data option"

definition stringFromData :: "'img platform \<Rightarrow> Data \<Rightarrow> string option" where
  "stringFromData P d = (if utf8_valid P d then Some d else None)"

subsection \<open>The pasteboard server\<close>

text \<open>
  \<open>NSPasteboard\<close> is part of AppKit, not of the repository; this is the behaviour the
  adapter relies on. A pasteboard holds one item: its representations in the order they
  were declared, each a type identifier with its bytes. \<open>clearContents\<close> removes them
  all; \<open>setData\<close> and \<open>setString\<close> add one representation (or replace the one of
  the same type); \<open>data(forType:)\<close> returns the bytes stored for a type, and
  \<open>string(forType:)\<close> returns them when they are a string, whichever of the two
  calls stored them (the repository's tests read back as a string what
  \<open>write --base64\<close> stored as bytes). The pasteboards of the system are a function
  from the pasteboard name: a name never used before denotes an empty pasteboard.
\<close>

datatype NSPasteboardName = general | find | font | ruler | drag | Name string

type_synonym pasteboard = "(string \<times> Data) list"

type_synonym pasteboards = "NSPasteboardName \<Rightarrow> pasteboard"

definition PasteboardType_string :: string where
  "PasteboardType_string = ''public.utf8-plain-text''"

definition PasteboardType_tiff :: string where
  "PasteboardType_tiff = ''public.tiff''"

definition PasteboardType_png :: string where
  "PasteboardType_png = ''public.png''"

definition types :: "pasteboard \<Rightarrow> string list" where
  "types pb = map fst pb"

definition dataForType :: "pasteboard \<Rightarrow> string \<Rightarrow> Data option" where
  "dataForType pb t = map_of pb t"

definition stringForType :: "'img platform \<Rightarrow> pasteboard \<Rightarrow> string \<Rightarrow> string option" where
  "stringForType P pb t =
     (case map_of pb t of None \<Rightarrow> None | Some d \<Rightarrow> stringFromData P d)"

fun setData :: "Data \<Rightarrow> string \<Rightarrow> pasteboard \<Rightarrow> pasteboard" where
  "setData d t [] = [(t, d)]"
| "setData d t ((k, v) # pb) = (if k = t then (t, d) # pb else (k, v) # setData d t pb)"

definition setString :: "string \<Rightarrow> string \<Rightarrow> pasteboard \<Rightarrow> pasteboard" where
  "setString s t pb = setData s t pb"

definition clearContents :: "pasteboard \<Rightarrow> pasteboard" where
  "clearContents pb = []"

subsection \<open>Helpers\<close>

text \<open>
  A command either returns, having written some bytes to standard output (the process
  then exits with code 0), or leaves through \<open>exitError\<close>: the message and a newline on
  standard error, and the exit code.
\<close>

type_synonym failure = "string \<times> int"

type_synonym outcome = "failure + Data"

definition newline :: string where
  "newline = [CHR 0x0A]"

definition exitError :: "string \<Rightarrow> failure" where
  "exitError message = (message @ newline, 1)"

fun getPasteboard :: "string option \<Rightarrow> NSPasteboardName" where
  "getPasteboard None = general"
| "getPasteboard (Some name) =
     (if name = ''general'' then general
      else if name = ''find'' then find
      else if name = ''font'' then font
      else if name = ''ruler'' then ruler
      else if name = ''drag'' then drag
      else Name name)"

text \<open>
  \<open>readStdin\<close> appends chunks of at most 65536 bytes until \<open>fread\<close> returns 0. Standard
  input is the finite list of bytes the parent wrote before closing the pipe.
\<close>

function readStdin_loop :: "Data \<Rightarrow> Data \<Rightarrow> Data" where
  "readStdin_loop data input =
     (if min 65536 (length input) = 0 then data
      else readStdin_loop (data @ take (min 65536 (length input)) input)
             (drop (min 65536 (length input)) input))"
  by pat_completeness auto
termination
  by (relation "measure (\<lambda>(data, input). length input)") auto

declare readStdin_loop.simps [simp del]

definition readStdin :: "Data \<Rightarrow> Data" where
  "readStdin input = readStdin_loop [] input"

subsection \<open>Argument parsing\<close>

record Args =
  command :: string
  pasteboard :: "string option"
  type :: "string option"
  format :: string
  isBase64 :: bool

definition Args_init :: Args where
  "Args_init = \<lparr>command = '''', pasteboard = None, type = None, format = ''png'',
     isBase64 = False\<rparr>"

definition usage :: string where
  "usage =
     ''Usage: pbhelper <command> [options]'' @ newline @
     newline @
     ''Commands:'' @ newline @
     ''  list-types  [--pasteboard NAME]'' @ newline @
     ''  read-text   [--pasteboard NAME]'' @ newline @
     ''  write-text  [--pasteboard NAME]'' @ newline @
     ''  read-image  [--pasteboard NAME] [--format png|tiff]'' @ newline @
     ''  write-image [--pasteboard NAME] [--format png|tiff]'' @ newline @
     ''  read        --type UTI [--pasteboard NAME]'' @ newline @
     ''  write       --type UTI [--pasteboard NAME] [--base64]'' @ newline @
     ''  clear       [--pasteboard NAME]''"

definition printUsage_exit :: failure where
  "printUsage_exit = (usage @ newline, 1)"

text \<open>The \<open>while i < argv.count\<close> loop, on the arguments from index \<open>i\<close> on.\<close>

fun parseArgs_loop :: "Args \<Rightarrow> string list \<Rightarrow> failure + Args" where
  "parseArgs_loop args [] = Inr args"
| "parseArgs_loop args (a # rest) =
     (if a = ''--pasteboard'' then
        (case rest of
           [] \<Rightarrow> Inl (exitError ''Missing value for --pasteboard'')
         | v # rest' \<Rightarrow> parseArgs_loop (args\<lparr>pasteboard := Some v\<rparr>) rest')
      else if a = ''--type'' then
        (case rest of
           [] \<Rightarrow> Inl (exitError ''Missing value for --type'')
         | v # rest' \<Rightarrow> parseArgs_loop (args\<lparr>type := Some v\<rparr>) rest')
      else if a = ''--format'' then
        (case rest of
           [] \<Rightarrow> Inl (exitError ''Missing value for --format'')
         | v # rest' \<Rightarrow> parseArgs_loop (args\<lparr>format := v\<rparr>) rest')
      else if a = ''--base64'' then parseArgs_loop (args\<lparr>isBase64 := True\<rparr>) rest
      else Inl (exitError (''Unknown argument: '' @ a)))"

fun parseArgs :: "string list \<Rightarrow> failure + Args" where
  "parseArgs (argv0 # cmd # rest) = parseArgs_loop (Args_init\<lparr>command := cmd\<rparr>) rest"
| "parseArgs _ = Inl printUsage_exit"

subsection \<open>Commands\<close>

text \<open>
  Each command takes the parsed arguments, the bytes on standard input (for the commands
  that read it) and the pasteboards of the system, and returns its outcome with the
  pasteboards as it leaves them.
\<close>

definition cmdListTypes :: "'img platform \<Rightarrow> Args \<Rightarrow> pasteboards \<Rightarrow> outcome \<times> pasteboards" where
  "cmdListTypes P args w =
     (let pb = w (getPasteboard (pasteboard args));
          strings = types pb
      in case jsonSerialization P strings of
           None \<Rightarrow> (Inl (exitError ''Failed to serialize types''), w)
         | Some json \<Rightarrow>
             (case stringFromData P json of
                None \<Rightarrow> (Inl (exitError ''Failed to serialize types''), w)
              | Some str \<Rightarrow> (Inr (str @ newline), w)))"

definition cmdReadText :: "'img platform \<Rightarrow> Args \<Rightarrow> pasteboards \<Rightarrow> outcome \<times> pasteboards" where
  "cmdReadText P args w =
     (let pb = w (getPasteboard (pasteboard args))
      in case stringForType P pb PasteboardType_string of
           None \<Rightarrow> (Inl (exitError ''No text on pasteboard''), w)
         | Some text \<Rightarrow> (Inr text, w))"

definition cmdWriteText ::
  "'img platform \<Rightarrow> Args \<Rightarrow> Data \<Rightarrow> pasteboards \<Rightarrow> outcome \<times> pasteboards" where
  "cmdWriteText P args input w =
     (let data = readStdin input
      in case stringFromData P data of
           None \<Rightarrow> (Inl (exitError ''Invalid UTF-8 input''), w)
         | Some text \<Rightarrow>
             (let n = getPasteboard (pasteboard args);
                  pb = clearContents (w n);
                  pb = setString text PasteboardType_string pb
              in (Inr [], w(n := pb))))"

text \<open>
  The part of \<open>cmdReadImage\<close> that picks the bitmap: the TIFF representation when it is
  there and decodes, else the PNG representation when it is there and decodes.
\<close>

definition readImage_rep :: "'img platform \<Rightarrow> pasteboard \<Rightarrow> 'img option" where
  "readImage_rep P pb =
     (let imageRep = (case dataForType pb PasteboardType_tiff of
                        Some tiffData \<Rightarrow> bitmapImageRep P tiffData
                      | None \<Rightarrow> None)
      in case imageRep of
           Some rep \<Rightarrow> Some rep
         | None \<Rightarrow> (case dataForType pb PasteboardType_png of
                       Some pngData \<Rightarrow> bitmapImageRep P pngData
                     | None \<Rightarrow> None))"

definition cmdReadImage :: "'img platform \<Rightarrow> Args \<Rightarrow> pasteboards \<Rightarrow> outcome \<times> pasteboards" where
  "cmdReadImage P args w =
     (let pb = w (getPasteboard (pasteboard args))
      in case readImage_rep P pb of
           None \<Rightarrow> (Inl (exitError ''No image on pasteboard''), w)
         | Some rep \<Rightarrow>
             (let fileType = (if format args = ''tiff'' then tiff else png)
              in case representation P rep fileType of
                   None \<Rightarrow> (Inl (exitError (''Failed to convert image to '' @ format args)), w)
                 | Some outputData \<Rightarrow> (Inr (base64EncodedString P outputData), w)))"

text \<open>
  \<open>String(data:encoding:)?.trimmingCharacters(in:)\<close> followed by
  \<open>Data(base64Encoded:)\<close>, the guard shared by \<open>cmdWriteImage\<close> and the base64 branch
  of \<open>cmdWrite\<close>.
\<close>

definition decodeBase64Input :: "'img platform \<Rightarrow> Data \<Rightarrow> Data option" where
  "decodeBase64Input P stdinData =
     (case stringFromData P stdinData of
        None \<Rightarrow> None
      | Some s \<Rightarrow> base64Decoded P (trimmingWhitespace P s))"

definition cmdWriteImage ::
  "'img platform \<Rightarrow> Args \<Rightarrow> Data \<Rightarrow> pasteboards \<Rightarrow> outcome \<times> pasteboards" where
  "cmdWriteImage P args input w =
     (let stdinData = readStdin input
      in case decodeBase64Input P stdinData of
           None \<Rightarrow> (Inl (exitError ''Invalid base64 image data''), w)
         | Some imageData \<Rightarrow>
             (case bitmapImageRep P imageData of
                None \<Rightarrow> (Inl (exitError ''Failed to decode image data''), w)
              | Some imageRep \<Rightarrow>
                  (let n = getPasteboard (pasteboard args);
                       pb = clearContents (w n);
                       pb = (case representation P imageRep tiff of
                               Some tiffData \<Rightarrow> setData tiffData PasteboardType_tiff pb
                             | None \<Rightarrow> pb);
                       pb = (if format args = ''png'' then
                               (case representation P imageRep png of
                                  Some pngData \<Rightarrow> setData pngData PasteboardType_png pb
                                | None \<Rightarrow> pb)
                             else pb)
                   in (Inr [], w(n := pb)))))"

definition cmdRead :: "'img platform \<Rightarrow> Args \<Rightarrow> pasteboards \<Rightarrow> outcome \<times> pasteboards" where
  "cmdRead P args w =
     (case type args of
        None \<Rightarrow> (Inl (exitError ''--type is required for read command''), w)
      | Some typeStr \<Rightarrow>
          (let pb = w (getPasteboard (pasteboard args))
           in case stringForType P pb typeStr of
                Some str \<Rightarrow> (Inr str, w)
              | None \<Rightarrow>
                  (case dataForType pb typeStr of
                     None \<Rightarrow>
                       (Inl (exitError (''No data for type '' @ typeStr @ '' on pasteboard'')), w)
                   | Some data \<Rightarrow> (Inr (base64EncodedString P data), w))))"

definition cmdWrite ::
  "'img platform \<Rightarrow> Args \<Rightarrow> Data \<Rightarrow> pasteboards \<Rightarrow> outcome \<times> pasteboards" where
  "cmdWrite P args input w =
     (case type args of
        None \<Rightarrow> (Inl (exitError ''--type is required for write command''), w)
      | Some typeStr \<Rightarrow>
          (let stdinData = readStdin input;
               n = getPasteboard (pasteboard args)
           in if isBase64 args then
                (case decodeBase64Input P stdinData of
                   None \<Rightarrow> (Inl (exitError ''Invalid base64 data''), w)
                 | Some decoded \<Rightarrow>
                     (Inr [], w(n := setData decoded typeStr (clearContents (w n)))))
              else
                (case stringFromData P stdinData of
                   None \<Rightarrow> (Inl (exitError ''Invalid UTF-8 input''), w)
                 | Some text \<Rightarrow>
                     (Inr [], w(n := setString text typeStr (clearContents (w n)))))))"

definition cmdClear :: "'img platform \<Rightarrow> Args \<Rightarrow> pasteboards \<Rightarrow> outcome \<times> pasteboards" where
  "cmdClear P args w =
     (let n = getPasteboard (pasteboard args) in (Inr [], w(n := clearContents (w n))))"

subsection \<open>Main\<close>

definition run_command ::
  "'img platform \<Rightarrow> Args \<Rightarrow> Data \<Rightarrow> pasteboards \<Rightarrow> outcome \<times> pasteboards" where
  "run_command P args input w =
     (if command args = ''list-types'' then cmdListTypes P args w
      else if command args = ''read-text'' then cmdReadText P args w
      else if command args = ''write-text'' then cmdWriteText P args input w
      else if command args = ''read-image'' then cmdReadImage P args w
      else if command args = ''write-image'' then cmdWriteImage P args input w
      else if command args = ''read'' then cmdRead P args w
      else if command args = ''write'' then cmdWrite P args input w
      else if command args = ''clear'' then cmdClear P args w
      else (Inl printUsage_exit, w))"

definition pbhelper ::
  "'img platform \<Rightarrow> string list \<Rightarrow> Data \<Rightarrow> pasteboards \<Rightarrow> outcome \<times> pasteboards" where
  "pbhelper P argv input w =
     (case parseArgs argv of
        Inl f \<Rightarrow> (Inl f, w)
      | Inr args \<Rightarrow> run_command P args input w)"

text \<open>
  What the parent process observes when the adapter has exited: the bytes on standard
  output, the bytes on standard error and the exit status.
\<close>

fun written_stdout :: "outcome \<Rightarrow> Data" where
  "written_stdout (Inr out) = out"
| "written_stdout (Inl (msg, code)) = []"


fun exit_status :: "outcome \<Rightarrow> int" where
  "exit_status (Inr out) = 0"
| "exit_status (Inl (msg, code)) = code"

section \<open>The process bridge (pasteboard.ts)\<close>

subsection \<open>JavaScript strings\<close>

text \<open>
  A JavaScript string is a sequence of UTF-16 code units. \<open>js\<close> embeds an ASCII literal.
  \<open>String.prototype.trim\<close> removes the white space and line terminators of ECMAScript
  from both ends, and a string is falsy exactly when it is empty. \<open>Number_toString\<close> is
  the decimal text of an integer, as a template literal prints it.
\<close>

type_synonym jsstring = "16 word list"

definition js :: "string \<Rightarrow> jsstring" where
  "js s = map (\<lambda>c. of_nat (of_char c)) s"

definition js_white_space :: "16 word \<Rightarrow> bool" where
  "js_white_space c \<longleftrightarrow>
     c \<in> {0x0009, 0x000A, 0x000B, 0x000C, 0x000D, 0x0020, 0x00A0, 0x1680, 0x2000, 0x2001,
          0x2002, 0x2003, 0x2004, 0x2005, 0x2006, 0x2007, 0x2008, 0x2009, 0x200A, 0x2028,
          0x2029, 0x202F, 0x205F, 0x3000, 0xFEFF}"

definition js_trim :: "jsstring \<Rightarrow> jsstring" where
  "js_trim s = rev (dropWhile js_white_space (rev (dropWhile js_white_space s)))"

fun decimal :: "nat \<Rightarrow> string" where
  "decimal n =
     (if n < 10 then [''0123456789'' ! n]
      else decimal (n div 10) @ [''0123456789'' ! (n mod 10)])"

text \<open>The number that a decimal text denotes, to state what \<open>decimal\<close> prints.\<close>

definition decimal_value :: "string \<Rightarrow> nat" where
  "decimal_value ds = foldl (\<lambda>a c. 10 * a + (of_char c - 48)) 0 ds"

definition Number_toString :: "int \<Rightarrow> jsstring" where
  "Number_toString i = js (if i < 0 then ''-'' @ decimal (nat (- i)) else decimal (nat i))"

subsection \<open>Node\<close>

text \<open>
  The parts of Node that the bridge calls: \<open>spawn\<close> runs the adapter with an argument
  vector and an optional payload for its standard input, on the state \<open>'w\<close> of the
  system, and reports the chunks the child wrote and how it ended (an \<open>error\<close> event
  with its message, or a \<open>close\<close> event with the exit code, \<open>null\<close> when a signal
  ended the child); \<open>Buffer_toString\<close> decodes bytes to a string; \<open>JSON_parse\<close>
  returns a value or throws.
\<close>

datatype js_error = Error jsstring

datatype proc_event = error_event jsstring | close_event "int option"

record child_run =
  stdout_chunks :: "Data list"
  stderr_chunks :: "Data list"
  event :: proc_event

record ('json, 'w) node =
  spawn :: "jsstring list \<Rightarrow> jsstring option \<Rightarrow> 'w \<Rightarrow> child_run \<times> 'w"
  Buffer_toString :: "Data \<Rightarrow> jsstring"
  JSON_parse :: "jsstring \<Rightarrow> js_error + 'json"

subsection \<open>The bridge\<close>

record ExecResult =
  stdout :: Data
  stderr :: jsstring
  exitCode :: int

text \<open>A promise that has settled: rejected with an error, or resolved with a value.\<close>

type_synonym 'a settled = "js_error + 'a"

definition execPbHelper ::
  "('json, 'w) node \<Rightarrow> jsstring list \<Rightarrow> jsstring option \<Rightarrow> 'w \<Rightarrow> ExecResult settled \<times> 'w" where
  "execPbHelper N args stdinData w =
     (let (proc, w') = spawn N args stdinData w
      in case event proc of
           error_event message \<Rightarrow> (Inl (Error (js ''Failed to spawn pbhelper: '' @ message)), w')
         | close_event code \<Rightarrow>
             (Inr \<lparr>stdout = concat (stdout_chunks proc),
                   stderr = concat (map (Buffer_toString N) (stderr_chunks proc)),
                   exitCode = (case code of None \<Rightarrow> 1 | Some c \<Rightarrow> c)\<rparr>, w'))"

definition pbArgs :: "jsstring option \<Rightarrow> jsstring list" where
  "pbArgs pasteboard' =
     (case pasteboard' of
        None \<Rightarrow> []
      | Some p \<Rightarrow> if p \<noteq> [] then [js ''--pasteboard'', p] else [])"

definition checkResult :: "ExecResult \<Rightarrow> unit settled" where
  "checkResult result =
     (if exitCode result \<noteq> 0 then
        Inl (Error (if js_trim (stderr result) \<noteq> [] then js_trim (stderr result)
                    else js ''pbhelper exited with code '' @ Number_toString (exitCode result)))
      else Inr ())"

definition listTypes ::
  "('json, 'w) node \<Rightarrow> jsstring option \<Rightarrow> 'w \<Rightarrow> 'json settled \<times> 'w" where
  "listTypes N pasteboard' w =
     (case execPbHelper N (js ''list-types'' # pbArgs pasteboard') None w of
        (Inl e, w') \<Rightarrow> (Inl e, w')
      | (Inr result, w') \<Rightarrow>
          (case checkResult result of
             Inl e \<Rightarrow> (Inl e, w')
           | Inr _ \<Rightarrow> (JSON_parse N (Buffer_toString N (stdout result)), w')))"

definition readText ::
  "('json, 'w) node \<Rightarrow> jsstring option \<Rightarrow> 'w \<Rightarrow> jsstring settled \<times> 'w" where
  "readText N pasteboard' w =
     (case execPbHelper N (js ''read-text'' # pbArgs pasteboard') None w of
        (Inl e, w') \<Rightarrow> (Inl e, w')
      | (Inr result, w') \<Rightarrow>
          (case checkResult result of
             Inl e \<Rightarrow> (Inl e, w')
           | Inr _ \<Rightarrow> (Inr (Buffer_toString N (stdout result)), w')))"

definition writeText ::
  "('json, 'w) node \<Rightarrow> jsstring \<Rightarrow> jsstring option \<Rightarrow> 'w \<Rightarrow> unit settled \<times> 'w" where
  "writeText N text pasteboard' w =
     (case execPbHelper N (js ''write-text'' # pbArgs pasteboard') (Some text) w of
        (Inl e, w') \<Rightarrow> (Inl e, w')
      | (Inr result, w') \<Rightarrow> (checkResult result, w'))"

text \<open>A parameter with a default takes it when the caller passes \<open>undefined\<close>.\<close>

definition readImage ::
  "('json, 'w) node \<Rightarrow> jsstring option \<Rightarrow> jsstring option \<Rightarrow> 'w \<Rightarrow> jsstring settled \<times> 'w" where
  "readImage N pasteboard' format_opt w =
     (let format' = (case format_opt of None \<Rightarrow> js ''png'' | Some f \<Rightarrow> f)
      in case execPbHelper N ([js ''read-image'', js ''--format'', format'] @ pbArgs pasteboard')
                None w of
           (Inl e, w') \<Rightarrow> (Inl e, w')
         | (Inr result, w') \<Rightarrow>
             (case checkResult result of
                Inl e \<Rightarrow> (Inl e, w')
              | Inr _ \<Rightarrow> (Inr (Buffer_toString N (stdout result)), w')))"

definition writeImage ::
  "('json, 'w) node \<Rightarrow> jsstring \<Rightarrow> jsstring option \<Rightarrow> jsstring option \<Rightarrow> 'w
     \<Rightarrow> unit settled \<times> 'w" where
  "writeImage N base64Data pasteboard' format_opt w =
     (let format' = (case format_opt of None \<Rightarrow> js ''png'' | Some f \<Rightarrow> f)
      in case execPbHelper N ([js ''write-image'', js ''--format'', format'] @ pbArgs pasteboard')
                (Some base64Data) w of
           (Inl e, w') \<Rightarrow> (Inl e, w')
         | (Inr result, w') \<Rightarrow> (checkResult result, w'))"

definition readData ::
  "('json, 'w) node \<Rightarrow> jsstring \<Rightarrow> jsstring option \<Rightarrow> 'w \<Rightarrow> jsstring settled \<times> 'w" where
  "readData N type' pasteboard' w =
     (case execPbHelper N ([js ''read'', js ''--type'', type'] @ pbArgs pasteboard') None w of
        (Inl e, w') \<Rightarrow> (Inl e, w')
      | (Inr result, w') \<Rightarrow>
          (case checkResult result of
             Inl e \<Rightarrow> (Inl e, w')
           | Inr _ \<Rightarrow> (Inr (Buffer_toString N (stdout result)), w')))"

definition writeData ::
  "('json, 'w) node \<Rightarrow> jsstring \<Rightarrow> jsstring \<Rightarrow> bool \<Rightarrow> jsstring option \<Rightarrow> 'w
     \<Rightarrow> unit settled \<times> 'w" where
  "writeData N type' data isBase64' pasteboard' w =
     (let args = [js ''write'', js ''--type'', type']
                 @ (if isBase64' then [js ''--base64''] else []) @ pbArgs pasteboard'
      in case execPbHelper N args (Some data) w of
           (Inl e, w') \<Rightarrow> (Inl e, w')
         | (Inr result, w') \<Rightarrow> (checkResult result, w'))"

definition clear :: "('json, 'w) node \<Rightarrow> jsstring option \<Rightarrow> 'w \<Rightarrow> unit settled \<times> 'w" where
  "clear N pasteboard' w =
     (case execPbHelper N (js ''clear'' # pbArgs pasteboard') None w of
        (Inl e, w') \<Rightarrow> (Inl e, w')
      | (Inr result, w') \<Rightarrow> (checkResult result, w'))"

section \<open>A platform to run the model on\<close>

text \<open>
  Concrete functions for the fields of \<open>platform\<close> and \<open>node\<close>, used where a theorem is
  applied to a concrete input: well-formed UTF-8 (RFC 3629), trimming of ASCII white
  space, base64 with padding (RFC 4648), a bitmap that is the bytes after a TIFF or PNG
  signature, and a JSON array of strings.
\<close>

fun utf8_wellformed :: "nat list \<Rightarrow> bool" where
  "utf8_wellformed [] = True"
| "utf8_wellformed (b # bs) =
     (if b < 0x80 then utf8_wellformed bs
      else if 0xC2 \<le> b \<and> b \<le> 0xDF then
        (case bs of
           c # r \<Rightarrow> 0x80 \<le> c \<and> c \<le> 0xBF \<and> utf8_wellformed r
         | _ \<Rightarrow> False)
      else if 0xE0 \<le> b \<and> b \<le> 0xEF then
        (case bs of
           c # d # r \<Rightarrow>
             (if b = 0xE0 then 0xA0 else 0x80) \<le> c \<and> c \<le> (if b = 0xED then 0x9F else 0xBF)
             \<and> 0x80 \<le> d \<and> d \<le> 0xBF \<and> utf8_wellformed r
         | _ \<Rightarrow> False)
      else if 0xF0 \<le> b \<and> b \<le> 0xF4 then
        (case bs of
           c # d # e # r \<Rightarrow>
             (if b = 0xF0 then 0x90 else 0x80) \<le> c \<and> c \<le> (if b = 0xF4 then 0x8F else 0xBF)
             \<and> 0x80 \<le> d \<and> d \<le> 0xBF \<and> 0x80 \<le> e \<and> e \<le> 0xBF \<and> utf8_wellformed r
         | _ \<Rightarrow> False)
      else False)"

definition ascii_space :: "char \<Rightarrow> bool" where
  "ascii_space c \<longleftrightarrow> c \<in> set [CHR 0x09, CHR 0x0A, CHR 0x0B, CHR 0x0C, CHR 0x0D, CHR '' '']"

definition ascii_trim :: "string \<Rightarrow> string" where
  "ascii_trim s = rev (dropWhile ascii_space (rev (dropWhile ascii_space s)))"

definition base64_alphabet :: string where
  "base64_alphabet = ''ABCDEFGHIJKLMNOPQRSTUVWXYZabcdefghijklmnopqrstuvwxyz0123456789+/''"

fun base64_encode :: "nat list \<Rightarrow> string" where
  "base64_encode [] = []"
| "base64_encode [a] =
     [base64_alphabet ! (a div 4), base64_alphabet ! (a mod 4 * 16), CHR ''='', CHR ''='']"
| "base64_encode [a, b] =
     [base64_alphabet ! (a div 4), base64_alphabet ! (a mod 4 * 16 + b div 16),
      base64_alphabet ! (b mod 16 * 4), CHR ''='']"
| "base64_encode (a # b # c # r) =
     [base64_alphabet ! (a div 4), base64_alphabet ! (a mod 4 * 16 + b div 16),
      base64_alphabet ! (b mod 16 * 4 + c div 64), base64_alphabet ! (c mod 64)]
     @ base64_encode r"

fun index_of :: "'a \<Rightarrow> 'a list \<Rightarrow> nat option" where
  "index_of x [] = None"
| "index_of x (y # ys) = (if x = y then Some 0 else map_option Suc (index_of x ys))"

definition sextet :: "char \<Rightarrow> nat option" where
  "sextet c = index_of c base64_alphabet"

fun base64_decode :: "string \<Rightarrow> nat list option" where
  "base64_decode [] = Some []"
| "base64_decode (w # x # y # z # r) =
     (case (sextet w, sextet x) of
        (Some a, Some b) \<Rightarrow>
          (if y = CHR ''='' then
             (if z = CHR ''='' \<and> r = [] \<and> b mod 16 = 0 then Some [a * 4 + b div 16] else None)
           else
             (case sextet y of
                None \<Rightarrow> None
              | Some c \<Rightarrow>
                  (if z = CHR ''='' then
                     (if r = [] \<and> c mod 4 = 0
                      then Some [a * 4 + b div 16, b mod 16 * 16 + c div 4] else None)
                   else
                     (case sextet z of
                        None \<Rightarrow> None
                      | Some d \<Rightarrow>
                          map_option
                            (\<lambda>bytes. [a * 4 + b div 16, b mod 16 * 16 + c div 4, c mod 4 * 64 + d]
                                      @ bytes)
                            (base64_decode r)))))
      | _ \<Rightarrow> None)"
| "base64_decode _ = None"

definition png_signature :: Data where
  "png_signature = [CHR 0x89, CHR ''P'', CHR ''N'', CHR ''G'']"

definition example_bitmap :: "Data \<Rightarrow> Data option" where
  "example_bitmap d =
     (if take 2 d = ''II'' \<or> take 2 d = ''MM'' then Some (drop 2 d)
      else if take 4 d = png_signature then Some (drop 4 d)
      else None)"

fun example_representation :: "Data \<Rightarrow> FileType \<Rightarrow> Data option" where
  "example_representation pixels tiff = Some (''II'' @ pixels)"
| "example_representation pixels png = Some (png_signature @ pixels)"

fun json_escape :: "string \<Rightarrow> string" where
  "json_escape [] = []"
| "json_escape (c # cs) =
     (if c = CHR 0x22 \<or> c = CHR 0x5C then CHR 0x5C # c # json_escape cs
      else c # json_escape cs)"

fun json_strings :: "string list \<Rightarrow> string" where
  "json_strings [] = []"
| "json_strings [x] = [CHR 0x22] @ json_escape x @ [CHR 0x22]"
| "json_strings (x # y # ys) =
     [CHR 0x22] @ json_escape x @ [CHR 0x22] @ '','' @ json_strings (y # ys)"

definition example_platform :: "Data platform" where
  "example_platform =
     \<lparr>utf8_valid = (\<lambda>d. utf8_wellformed (map of_char d)),
      trimmingWhitespace = ascii_trim,
      base64Decoded = (\<lambda>s. map_option (map char_of) (base64_decode s)),
      base64EncodedString = (\<lambda>d. base64_encode (map of_char d)),
      bitmapImageRep = example_bitmap,
      representation = example_representation,
      jsonSerialization = (\<lambda>xs. Some (''['' @ json_strings xs @ '']''))\<rparr>"

definition empty_pasteboards :: pasteboards where
  "empty_pasteboards = (\<lambda>n. [])"

text \<open>
  A pasteboard server whose general pasteboard already holds an item, and a Node whose
  child process always ends as the given run says; it decodes ASCII and parses only the
  empty JSON array.
\<close>

definition used_pasteboards :: pasteboards where
  "used_pasteboards = empty_pasteboards(general := [(''com.example.note'', ''earlier'')])"

definition example_node :: "child_run \<Rightarrow> (jsstring list, unit) node" where
  "example_node run =
     \<lparr>spawn = (\<lambda>args stdinData w. (run, w)),
      Buffer_toString = js,
      JSON_parse = (\<lambda>s. if s = js ''[]'' then Inr []
                          else Inl (Error (js ''Unexpected token in JSON'')))\<rparr>"

text \<open>
  Three ways a child process can end: with a message and code 1, killed with only a
  line feed on standard error (code 137), and with code 0 after a warning.
\<close>

definition run_no_text :: child_run where
  "run_no_text =
     \<lparr>stdout_chunks = [], stderr_chunks = [''No text on pasteboard'' @ newline],
      event = close_event (Some 1)\<rparr>"

definition run_killed :: child_run where
  "run_killed = \<lparr>stdout_chunks = [], stderr_chunks = [newline], event = close_event (Some 137)\<rparr>"

definition run_warned :: child_run where
  "run_warned =
     \<lparr>stdout_chunks = [''['', '']''], stderr_chunks = [''warning'' @ newline],
      event = close_event (Some 0)\<rparr>"

section \<open>Properties of the adapter\<close>

subsection \<open>Reading standard input\<close>

lemma readStdin_loop_append: "readStdin_loop data input = data @ input"
proof (induction data input rule: readStdin_loop.induct)
  case (1 data input)
  show ?case
  proof (cases "min 65536 (length input) = 0")
    case True
    then have "input = []" by (simp add: min_def split: if_splits)
    then show ?thesis by (subst readStdin_loop.simps) simp
  next
    case False
    then show ?thesis using 1 by (subst readStdin_loop.simps) simp
  qed
qed

lemma readStdin_all [simp]: "readStdin input = input"
  by (simp add: readStdin_def readStdin_loop_append)

subsection \<open>Type identifiers and exit codes\<close>

lemma PasteboardType_distinct [simp]:
  "PasteboardType_tiff \<noteq> PasteboardType_png"
  "PasteboardType_png \<noteq> PasteboardType_tiff"
  "PasteboardType_string \<noteq> PasteboardType_tiff"
  "PasteboardType_string \<noteq> PasteboardType_png"
  by (simp_all add: PasteboardType_tiff_def PasteboardType_png_def PasteboardType_string_def)

lemma exit_status_failure [simp]:
  "exit_status (Inl (exitError m)) = 1" "exit_status (Inl printUsage_exit) = 1"
  by (simp_all add: exitError_def printUsage_exit_def)

lemma nonzero_exit: "exit_status r \<noteq> 0 \<Longrightarrow> \<exists>f. r = Inl f"
  by (cases r) auto

subsection \<open>The write commands\<close>

lemma cmdWriteText_success:
  "cmdWriteText P args input w = (Inr out, w') \<Longrightarrow>
     utf8_valid P input \<and> out = [] \<and>
     w' = w(getPasteboard (pasteboard args) := [(PasteboardType_string, input)])"
  by (auto simp: cmdWriteText_def stringFromData_def setString_def clearContents_def
      split: if_splits)

lemma cmdWriteText_valid:
  "utf8_valid P input \<Longrightarrow>
   cmdWriteText P args input w =
     (Inr [], w(getPasteboard (pasteboard args) := [(PasteboardType_string, input)]))"
  by (simp add: cmdWriteText_def stringFromData_def setString_def clearContents_def)

lemma cmdWrite_success:
  "cmdWrite P args input w = (Inr out, w') \<Longrightarrow>
     \<exists>typeStr payload. type args = Some typeStr \<and> out = [] \<and>
       (if isBase64 args then decodeBase64Input P input = Some payload
        else utf8_valid P input \<and> payload = input) \<and>
       w' = w(getPasteboard (pasteboard args) := [(typeStr, payload)])"
  by (auto simp: cmdWrite_def stringFromData_def setString_def clearContents_def Let_def
      split: if_splits option.splits)

lemma cmdWriteImage_decoded:
  assumes "decodeBase64Input P input = Some imageData"
    and "bitmapImageRep P imageData = Some imageRep"
  shows "fst (cmdWriteImage P args input w) = Inr []"
    and "n \<noteq> getPasteboard (pasteboard args) \<Longrightarrow> snd (cmdWriteImage P args input w) n = w n"
    and "dataForType (snd (cmdWriteImage P args input w) (getPasteboard (pasteboard args)))
           PasteboardType_tiff = representation P imageRep tiff"
    and "dataForType (snd (cmdWriteImage P args input w) (getPasteboard (pasteboard args)))
           PasteboardType_png = (if format args = ''png'' then representation P imageRep png else None)"
    and "set (types (snd (cmdWriteImage P args input w) (getPasteboard (pasteboard args))))
           \<subseteq> {PasteboardType_tiff, PasteboardType_png}"
  using assms
  by (cases "representation P imageRep tiff"; cases "representation P imageRep png";
      cases "format args = ''png''";
      simp add: cmdWriteImage_def clearContents_def Let_def dataForType_def types_def)+

lemma cmdWriteImage_success:
  "cmdWriteImage P args input w = (Inr out, w') \<Longrightarrow>
     \<exists>imageData imageRep. decodeBase64Input P input = Some imageData \<and>
       bitmapImageRep P imageData = Some imageRep \<and> out = []"
  by (auto simp: cmdWriteImage_def Let_def split: option.splits)

subsection \<open>Failures leave the pasteboards alone\<close>

lemma cmdWriteText_failure:
  "fst (cmdWriteText P args input w) = Inl f \<Longrightarrow> snd (cmdWriteText P args input w) = w"
  by (auto simp: cmdWriteText_def stringFromData_def Let_def split: if_splits)

lemma cmdWriteImage_failure:
  "fst (cmdWriteImage P args input w) = Inl f \<Longrightarrow> snd (cmdWriteImage P args input w) = w"
  by (auto simp: cmdWriteImage_def Let_def split: option.splits)

lemma cmdWrite_failure:
  "fst (cmdWrite P args input w) = Inl f \<Longrightarrow> snd (cmdWrite P args input w) = w"
  by (auto simp: cmdWrite_def Let_def split: option.splits if_splits)

lemma read_commands_keep:
  "snd (cmdListTypes P args w) = w" "snd (cmdReadText P args w) = w"
  "snd (cmdReadImage P args w) = w" "snd (cmdRead P args w) = w"
  by (auto simp: cmdListTypes_def cmdReadText_def cmdReadImage_def cmdRead_def Let_def
      split: option.splits)

lemma cmdClear_succeeds: "fst (cmdClear P args w) = Inr []"
  by (simp add: cmdClear_def Let_def)

lemma run_command_failure:
  "fst (run_command P args input w) = Inl f \<Longrightarrow> snd (run_command P args input w) = w"
  unfolding run_command_def
  by (auto simp: read_commands_keep cmdClear_succeeds
      dest: cmdWriteImage_failure cmdWrite_failure cmdWriteText_failure split: if_splits)

lemma pbhelper_failure:
  "fst (pbhelper P argv input w) = Inl f \<Longrightarrow> snd (pbhelper P argv input w) = w"
  by (auto simp: pbhelper_def dest: run_command_failure split: sum.splits)


subsection \<open>Looking up representations\<close>

lemma absent_type: "dataForType pb t = None \<longleftrightarrow> t \<notin> set (types pb)"
  by (simp add: dataForType_def types_def map_of_eq_None_iff)

lemma stringForType_stored:
  "stringForType P pb t = Some s \<Longrightarrow> dataForType pb t = Some s"
  by (auto simp: stringForType_def dataForType_def stringFromData_def
      split: option.splits if_splits)

lemma stringForType_absent:
  "t \<notin> set (types pb) \<Longrightarrow> stringForType P pb t = None"
  by (simp add: stringForType_def types_def map_of_eq_None_iff [THEN iffD2])

lemma cmdWriteImage_lookup:
  assumes "decodeBase64Input P input = Some imageData"
    and "bitmapImageRep P imageData = Some imageRep"
  shows "dataForType (snd (cmdWriteImage P args input w) (getPasteboard (pasteboard args))) t =
           (if t = PasteboardType_tiff then representation P imageRep tiff
            else if t = PasteboardType_png \<and> format args = ''png''
              then representation P imageRep png
            else None)"
  using assms
  by (cases "representation P imageRep tiff"; cases "representation P imageRep png";
      cases "format args = ''png''";
      simp add: cmdWriteImage_def clearContents_def Let_def dataForType_def)

subsection \<open>The format argument\<close>





section \<open>Properties of the bridge\<close>

lemma js_trim_decomposition:
  "\<exists>pre suf. s = pre @ js_trim s @ suf \<and> (\<forall>c \<in> set pre. js_white_space c)
     \<and> (\<forall>c \<in> set suf. js_white_space c)"
proof -
  let ?a = "takeWhile js_white_space s" and ?b = "dropWhile js_white_space s"
  let ?suf = "rev (takeWhile js_white_space (rev ?b))"
  have "?b = js_trim s @ ?suf"
    unfolding js_trim_def
    by (metis rev_append rev_rev_ident takeWhile_dropWhile_id)
  then have "s = ?a @ js_trim s @ ?suf"
    by (metis takeWhile_dropWhile_id)
  moreover have "\<forall>c \<in> set ?a. js_white_space c"
    by (meson set_takeWhileD)
  moreover have "\<forall>c \<in> set ?suf. js_white_space c"
    by (metis set_rev set_takeWhileD)
  ultimately show ?thesis by blast
qed

lemma js_trim_ends:
  "js_trim s \<noteq> [] \<Longrightarrow> \<not> js_white_space (hd (js_trim s)) \<and> \<not> js_white_space (last (js_trim s))"
proof -
  assume ne: "js_trim s \<noteq> []"
  let ?b = "dropWhile js_white_space s"
  let ?c = "dropWhile js_white_space (rev ?b)"
  have c: "?c \<noteq> []" using ne by (simp add: js_trim_def)
  then have "\<not> js_white_space (hd ?c)" by (simp add: hd_dropWhile)
  then have l: "\<not> js_white_space (last (js_trim s))"
    using c by (simp add: js_trim_def last_rev)
  have bne: "?b \<noteq> []" using c by (cases "?b") simp_all
  then have hb: "\<not> js_white_space (hd ?b)" by (simp add: hd_dropWhile)
  obtain suf where "?b = js_trim s @ suf"
    unfolding js_trim_def by (metis rev_append rev_rev_ident takeWhile_dropWhile_id)
  then have "hd ?b = hd (js_trim s)" using ne by (metis hd_append2)
  with hb l show ?thesis by simp
qed

lemma digit_chars: "\<forall>n \<in> set [0..<10]. of_char (''0123456789'' ! n) = 48 + n"
  by code_simp

lemma digit_char: "n < 10 \<Longrightarrow> of_char (''0123456789'' ! n) = 48 + n"
  using digit_chars by simp

lemma decimal_value_snoc: "decimal_value (ds @ [c]) = 10 * decimal_value ds + (of_char c - 48)"
  by (simp add: decimal_value_def)

lemma decimal_value_decimal: "decimal_value (decimal n) = n"
proof (induction n rule: decimal.induct)
  case (1 n)
  show ?case
  proof (cases "n < 10")
    case True
    then show ?thesis
      by (subst decimal.simps) (simp add: decimal_value_def digit_char del: decimal.simps)
  next
    case False
    have "n mod 10 < 10" by simp
    then have d: "of_char (''0123456789'' ! (n mod 10)) = 48 + n mod 10"
      by (rule digit_char)
    have "decimal_value (decimal n) = 10 * decimal_value (decimal (n div 10)) + n mod 10"
      using False d
      by (subst decimal.simps) (simp add: decimal_value_snoc del: decimal.simps)
    then show ?thesis using 1 False by simp
  qed
qed

lemma checkResult_cases:
  "checkResult result =
     (if exitCode result \<noteq> 0
      then Inl (Error (if js_trim (stderr result) = []
                       then js ''pbhelper exited with code '' @ Number_toString (exitCode result)
                       else js_trim (stderr result)))
      else Inr ())"
  by (simp add: checkResult_def)

section \<open>Running the example platform\<close>

lemma example_fields:
  "utf8_valid example_platform = (\<lambda>d. utf8_wellformed (map of_char d))"
  "trimmingWhitespace example_platform = ascii_trim"
  "base64Decoded example_platform = (\<lambda>s. map_option (map char_of) (base64_decode s))"
  "base64EncodedString example_platform = (\<lambda>d. base64_encode (map of_char d))"
  "bitmapImageRep example_platform = example_bitmap"
  "representation example_platform = example_representation"
  by (simp_all add: example_platform_def)

lemma example_utf8:
  "utf8_valid example_platform []"
  "utf8_valid example_platform ''hello''"
  "utf8_valid example_platform
     [CHR ''c'', CHR ''a'', CHR ''f'', CHR 0xC3, CHR 0xA9, CHR 0x0A, CHR ''!'']"
  "\<not> utf8_valid example_platform [CHR 0xFF]"
  by code_simp+

lemma example_decodes:
  "decodeBase64Input example_platform ''SUkq'' = Some ''II*''"
  "decodeBase64Input example_platform ''aGVsbG8='' = Some ''hello''"
  "decodeBase64Input example_platform ''%%%'' = None"
  "decodeBase64Input example_platform [CHR 0xFF] = None"
  "decodeBase64Input example_platform ''/w=='' = Some [CHR 0xFF]"
  by code_simp+

lemma example_bitmaps:
  "bitmapImageRep example_platform ''II*'' = Some ''*''"
  "bitmapImageRep example_platform ''hello'' = None"
  "bitmapImageRep example_platform ''junk'' = None"
  "bitmapImageRep example_platform (png_signature @ ''*'') = Some ''*''"
  by code_simp+

lemma example_representations:
  "representation example_platform ''*'' tiff = Some ''II*''"
  "representation example_platform ''*'' png = Some (png_signature @ ''*'')"
  by (simp_all add: example_fields)

lemma example_encodes:
  "base64EncodedString example_platform ''II*'' = ''SUkq''"
  "base64EncodedString example_platform (png_signature @ ''*'') = ''iVBORyo=''"
  "base64EncodedString example_platform [CHR 0xFF] = ''/w==''"
  by code_simp+

lemma example_listing:
  "jsonSerialization example_platform xs = Some (''['' @ json_strings xs @ '']'')"
  "utf8_valid example_platform (''['' @ json_strings [''public.tiff'', ''public.png''] @ '']'')"
  by (simp add: example_platform_def, code_simp)

lemma args_fields [simp]:
  "pasteboard Args_init = None" "type Args_init = None" "format Args_init = ''png''"
  "isBase64 Args_init = False" "command Args_init = []"
  by (simp_all add: Args_init_def)

lemma used_general [simp]:
  "used_pasteboards general = [(''com.example.note'', ''earlier'')]"
  by (simp add: used_pasteboards_def)

lemma empty_general [simp]: "empty_pasteboards n = []"
  by (simp add: empty_pasteboards_def)

lemma example_writes:
  "cmdWriteText example_platform (Args_init\<lparr>command := ''write-text''\<rparr>) ''hello'' w
     = (Inr [], w(general := [(PasteboardType_string, ''hello'')]))"
  "cmdWrite example_platform
     (Args_init\<lparr>command := ''write'', type := Some ''com.test.b64'', isBase64 := True\<rparr>)
     ''aGVsbG8='' w
     = (Inr [], w(general := [(''com.test.b64'', ''hello'')]))"
  "cmdWriteImage example_platform (Args_init\<lparr>command := ''write-image''\<rparr>) ''SUkq'' w
     = (Inr [], w(general := [(PasteboardType_tiff, ''II*''),
                               (PasteboardType_png, png_signature @ ''*'')]))"
  by (simp_all add: cmdWriteText_valid cmdWrite_def cmdWriteImage_def example_decodes
      example_bitmaps example_representations example_utf8
      clearContents_def)

lemma example_exec:
  "execPbHelper (example_node run) args stdinData w =
     (case event run of
        error_event m \<Rightarrow> (Inl (Error (js ''Failed to spawn pbhelper: '' @ m)), w)
      | close_event code \<Rightarrow>
          (Inr \<lparr>stdout = concat (stdout_chunks run),
                stderr = concat (map js (stderr_chunks run)),
                exitCode = (case code of None \<Rightarrow> 1 | Some c \<Rightarrow> c)\<rparr>, w))"
  by (simp add: execPbHelper_def example_node_def split: proc_event.splits)

lemma example_runs:
  "execPbHelper (example_node run_no_text) args stdinData w
     = (Inr \<lparr>stdout = [], stderr = js (''No text on pasteboard'' @ newline), exitCode = 1\<rparr>, w)"
  "execPbHelper (example_node run_killed) args stdinData w
     = (Inr \<lparr>stdout = [], stderr = js newline, exitCode = 137\<rparr>, w)"
  "execPbHelper (example_node run_warned) args stdinData w
     = (Inr \<lparr>stdout = ''[]'', stderr = js (''warning'' @ newline), exitCode = 0\<rparr>, w)"
  by (simp_all add: example_exec run_no_text_def run_killed_def run_warned_def)

lemma example_trims:
  "js_trim (js (''No text on pasteboard'' @ newline)) = js ''No text on pasteboard''"
  "js_trim (js newline) = []"
  by (simp_all add: js_trim_def js_def js_white_space_def newline_def)

lemma js_not_empty: "js (c # cs) \<noteq> []"
  by (simp add: js_def)

lemma example_code: "Number_toString 137 = js ''137''"
  by (simp add: Number_toString_def)

lemma example_node_fields:
  "Buffer_toString (example_node run) = js"
  "JSON_parse (example_node run) (js ''[]'') = Inr []"
  by (simp_all add: example_node_def)

section \<open>The claims\<close>

subsection \<open>Writing replaces the item\<close>

text \<open>
  Claim C1. A write command that succeeds leaves on the target pasteboard exactly the
  representations of that write, whatever the pasteboard held before: \<open>write-text\<close>
  leaves only the plain-text representation of its input, \<open>write\<close> leaves only the
  representation of its type (the decoded bytes with \<open>--base64\<close>, the text
  otherwise), \<open>write-image\<close> leaves nothing but the encodings of the decoded
  bitmap, and no other pasteboard changes. In particular, after \<open>write-text\<close> and then
  \<open>write-image\<close> on the same pasteboard, the plain-text type is not among the types
  that \<open>list-types\<close> serialises, which are the types of the pasteboard in their
  order.
\<close>

theorem write_replaces_item:
  fixes P :: "'img platform"
  shows
    "(cmdWriteText P args1 input1 w1 = (Inr out1, w1') \<longrightarrow>
        w1' = w1(getPasteboard (pasteboard args1) := [(PasteboardType_string, input1)]))
     \<and> (cmdWrite P args2 input2 w2 = (Inr out2, w2') \<longrightarrow>
        (\<exists>typeStr payload. type args2 = Some typeStr
           \<and> (if isBase64 args2 then decodeBase64Input P input2 = Some payload
               else payload = input2)
           \<and> w2' = w2(getPasteboard (pasteboard args2) := [(typeStr, payload)])))
     \<and> (cmdWriteImage P args3 input3 w3 = (Inr out3, w3') \<longrightarrow>
        (\<exists>imageData imageRep. decodeBase64Input P input3 = Some imageData
           \<and> bitmapImageRep P imageData = Some imageRep
           \<and> (\<forall>t. dataForType (w3' (getPasteboard (pasteboard args3))) t =
                  (if t = PasteboardType_tiff then representation P imageRep tiff
                   else if t = PasteboardType_png \<and> format args3 = ''png''
                     then representation P imageRep png
                   else None))
           \<and> (\<forall>n. n \<noteq> getPasteboard (pasteboard args3) \<longrightarrow> w3' n = w3 n)))
     \<and> (cmdWriteText P args4 input4 w4 = (Inr out4, w4')
          \<and> cmdWriteImage P args5 input5 w4' = (Inr out5, w5')
          \<and> getPasteboard (pasteboard args5) = getPasteboard (pasteboard args4) \<longrightarrow>
        PasteboardType_string \<notin> set (types (w5' (getPasteboard (pasteboard args4)))))
     \<and> cmdListTypes P args6 w6 =
         (case jsonSerialization P (types (w6 (getPasteboard (pasteboard args6)))) of
            None \<Rightarrow> (Inl (exitError ''Failed to serialize types''), w6)
          | Some json \<Rightarrow>
              (if utf8_valid P json then (Inr (json @ newline), w6)
               else (Inl (exitError ''Failed to serialize types''), w6)))"
proof (intro conjI impI)
  show "cmdListTypes P args6 w6 =
         (case jsonSerialization P (types (w6 (getPasteboard (pasteboard args6)))) of
            None \<Rightarrow> (Inl (exitError ''Failed to serialize types''), w6)
          | Some json \<Rightarrow>
              (if utf8_valid P json then (Inr (json @ newline), w6)
               else (Inl (exitError ''Failed to serialize types''), w6)))"
    by (simp add: cmdListTypes_def stringFromData_def Let_def split: option.splits)
next
  assume "cmdWriteText P args1 input1 w1 = (Inr out1, w1')"
  then show "w1' = w1(getPasteboard (pasteboard args1) := [(PasteboardType_string, input1)])"
    by (simp add: cmdWriteText_success)
next
  assume "cmdWrite P args2 input2 w2 = (Inr out2, w2')"
  from cmdWrite_success [OF this]
  show "\<exists>typeStr payload. type args2 = Some typeStr
           \<and> (if isBase64 args2 then decodeBase64Input P input2 = Some payload
               else payload = input2)
           \<and> w2' = w2(getPasteboard (pasteboard args2) := [(typeStr, payload)])"
    by (auto split: if_splits)
next
  assume a: "cmdWriteImage P args3 input3 w3 = (Inr out3, w3')"
  from cmdWriteImage_success [OF a] obtain imageData imageRep
    where d: "decodeBase64Input P input3 = Some imageData"
      "bitmapImageRep P imageData = Some imageRep"
    by blast
  have "\<forall>t. dataForType (w3' (getPasteboard (pasteboard args3))) t =
                  (if t = PasteboardType_tiff then representation P imageRep tiff
                   else if t = PasteboardType_png \<and> format args3 = ''png''
                     then representation P imageRep png
                   else None)"
    using cmdWriteImage_lookup [OF d, where args = args3 and w = w3] a by simp
  moreover have "\<forall>n. n \<noteq> getPasteboard (pasteboard args3) \<longrightarrow> w3' n = w3 n"
    using cmdWriteImage_decoded(2) [OF d, where args = args3 and w = w3] a by simp
  ultimately show "\<exists>imageData imageRep. decodeBase64Input P input3 = Some imageData
           \<and> bitmapImageRep P imageData = Some imageRep
           \<and> (\<forall>t. dataForType (w3' (getPasteboard (pasteboard args3))) t =
                  (if t = PasteboardType_tiff then representation P imageRep tiff
                   else if t = PasteboardType_png \<and> format args3 = ''png''
                     then representation P imageRep png
                   else None))
           \<and> (\<forall>n. n \<noteq> getPasteboard (pasteboard args3) \<longrightarrow> w3' n = w3 n)"
    using d by blast
next
  assume a: "cmdWriteText P args4 input4 w4 = (Inr out4, w4')
          \<and> cmdWriteImage P args5 input5 w4' = (Inr out5, w5')
          \<and> getPasteboard (pasteboard args5) = getPasteboard (pasteboard args4)"
  then have b: "cmdWriteImage P args5 input5 w4' = (Inr out5, w5')"
    and same: "getPasteboard (pasteboard args5) = getPasteboard (pasteboard args4)"
    by simp_all
  from cmdWriteImage_success [OF b] obtain imageData imageRep
    where d: "decodeBase64Input P input5 = Some imageData"
      "bitmapImageRep P imageData = Some imageRep"
    by blast
  have "dataForType (w5' (getPasteboard (pasteboard args5))) PasteboardType_string = None"
    using cmdWriteImage_lookup [OF d, where args = args5 and w = w4'
        and t = PasteboardType_string] b
    by simp
  then show "PasteboardType_string \<notin> set (types (w5' (getPasteboard (pasteboard args4))))"
    using same by (simp add: absent_type)
qed

text \<open>
  On a general pasteboard that holds an earlier item: the three writes, the typed write
  with and without \<open>--base64\<close>, and an image written after a text.
\<close>

theorem write_replaces_item_witness:
  "cmdWriteText example_platform (Args_init\<lparr>command := ''write-text''\<rparr>) ''hello''
     used_pasteboards
     = (Inr [], used_pasteboards(general := [(PasteboardType_string, ''hello'')]))
   \<and> cmdWrite example_platform
       (Args_init\<lparr>command := ''write'', type := Some ''com.test.b64'', isBase64 := True\<rparr>)
       ''aGVsbG8='' used_pasteboards
     = (Inr [], used_pasteboards(general := [(''com.test.b64'', ''hello'')]))
   \<and> cmdWriteImage example_platform (Args_init\<lparr>command := ''write-image''\<rparr>) ''SUkq''
       (used_pasteboards(general := [(PasteboardType_string, ''hello'')]))
     = (Inr [], used_pasteboards(general := [(PasteboardType_tiff, ''II*''),
                                            (PasteboardType_png, png_signature @ ''*'')]))
   \<and> getPasteboard (pasteboard (Args_init\<lparr>command := ''write-image''\<rparr>))
     = getPasteboard (pasteboard (Args_init\<lparr>command := ''write-text''\<rparr>))
   \<and> PasteboardType_string
       \<notin> set (types ((used_pasteboards(general := [(PasteboardType_tiff, ''II*''),
                                                    (PasteboardType_png, png_signature @ ''*'')]))
                        (getPasteboard (pasteboard (Args_init\<lparr>command := ''write-text''\<rparr>)))))
   \<and> (\<exists>typeStr payload.
         type (Args_init\<lparr>command := ''write'', type := Some ''com.test.b64'', isBase64 := True\<rparr>)
           = Some typeStr
         \<and> decodeBase64Input example_platform ''aGVsbG8='' = Some payload
         \<and> used_pasteboards(general := [(''com.test.b64'', ''hello'')])
           = used_pasteboards(general := [(typeStr, payload)]))
   \<and> cmdWrite example_platform
       (Args_init\<lparr>command := ''write'', type := Some ''com.test.custom''\<rparr>) ''hello''
       used_pasteboards
     = (Inr [], used_pasteboards(general := [(''com.test.custom'', ''hello'')]))
   \<and> (\<exists>typeStr payload.
         type (Args_init\<lparr>command := ''write'', type := Some ''com.test.custom''\<rparr>)
           = Some typeStr
         \<and> payload = ''hello''
         \<and> used_pasteboards(general := [(''com.test.custom'', ''hello'')])
           = used_pasteboards(general := [(typeStr, payload)]))
   \<and> cmdListTypes example_platform (Args_init\<lparr>command := ''list-types''\<rparr>)
        (used_pasteboards(general := [(PasteboardType_tiff, ''II*''),
                                      (PasteboardType_png, png_signature @ ''*'')]))
      = (Inr (''['' @ json_strings [''public.tiff'', ''public.png''] @ '']'' @ newline),
         used_pasteboards(general := [(PasteboardType_tiff, ''II*''),
                                      (PasteboardType_png, png_signature @ ''*'')]))"
proof -
  let ?text = "Args_init\<lparr>command := ''write-text''\<rparr>"
  let ?typed = "Args_init\<lparr>command := ''write'', type := Some ''com.test.b64'', isBase64 := True\<rparr>"
  let ?image = "Args_init\<lparr>command := ''write-image''\<rparr>"
  let ?w1 = "used_pasteboards(general := [(PasteboardType_string, ''hello'')])"
  let ?w2 = "used_pasteboards(general := [(''com.test.b64'', ''hello'')])"
  let ?w3 = "used_pasteboards(general := [(PasteboardType_tiff, ''II*''),
                                          (PasteboardType_png, png_signature @ ''*'')])"
  have h1: "cmdWriteText example_platform ?text ''hello'' used_pasteboards = (Inr [], ?w1)"
    by (rule example_writes(1))
  have h2: "cmdWrite example_platform ?typed ''aGVsbG8='' used_pasteboards = (Inr [], ?w2)"
    by (rule example_writes(2))
  have h3: "cmdWriteImage example_platform ?image ''SUkq'' ?w1 = (Inr [], ?w3)"
    using example_writes(3) [of ?w1] by simp
  have h4: "getPasteboard (pasteboard ?image) = getPasteboard (pasteboard ?text)"
    by simp
  note T = write_replaces_item [where P = example_platform
      and ?args6.0 = "Args_init\<lparr>command := ''list-types''\<rparr>" and ?w6.0 = ?w3
      and ?args2.0 = ?typed and ?input2.0 = "''aGVsbG8=''" and ?w2.0 = used_pasteboards
      and ?out2.0 = "[]" and w2' = ?w2
      and ?args4.0 = ?text and ?input4.0 = "''hello''" and ?w4.0 = used_pasteboards
      and ?out4.0 = "[]" and w4' = ?w1
      and ?args5.0 = ?image and ?input5.0 = "''SUkq''" and ?out5.0 = "[]" and w5' = ?w3]
  have c4: "PasteboardType_string \<notin> set (types (?w3 (getPasteboard (pasteboard ?text))))"
    using T h1 h3 h4 by blast
  have c2: "\<exists>typeStr payload. type ?typed = Some typeStr
         \<and> decodeBase64Input example_platform ''aGVsbG8='' = Some payload
         \<and> ?w2 = used_pasteboards(general := [(typeStr, payload)])"
    using T h2 by auto
  let ?plain = "Args_init\<lparr>command := ''write'', type := Some ''com.test.custom''\<rparr>"
  let ?w4 = "used_pasteboards(general := [(''com.test.custom'', ''hello'')])"
  have h5: "cmdWrite example_platform ?plain ''hello'' used_pasteboards = (Inr [], ?w4)"
    by (simp add: cmdWrite_def stringFromData_def example_utf8 setString_def clearContents_def)
  have c6: "\<exists>typeStr payload. type ?plain = Some typeStr \<and> payload = ''hello''
         \<and> ?w4 = used_pasteboards(general := [(typeStr, payload)])"
    using write_replaces_item [where P = example_platform and ?args2.0 = ?plain
        and ?input2.0 = "''hello''" and ?w2.0 = used_pasteboards and ?out2.0 = "[]"
        and w2' = ?w4, THEN conjunct2, THEN conjunct1, THEN mp, OF h5]
    by simp
  have c5: "cmdListTypes example_platform (Args_init\<lparr>command := ''list-types''\<rparr>) ?w3
      = (Inr (''['' @ json_strings [''public.tiff'', ''public.png''] @ '']'' @ newline), ?w3)"
    using T [THEN conjunct2, THEN conjunct2, THEN conjunct2, THEN conjunct2]
    by (simp add: types_def example_listing(1) example_listing(2) [simplified]
        PasteboardType_tiff_def PasteboardType_png_def)
  show ?thesis using h1 h2 h3 h4 c4 c2 h5 c6 c5 by (intro conjI)
qed

subsection \<open>Text round trip\<close>

text \<open>
  Claim C2. For every string \<open>s\<close> that is valid UTF-8, that is, that
  \<open>String(data:encoding:)\<close> accepts (the empty string and strings of any length
  included), \<open>write-text\<close> with standard input \<open>s\<close> succeeds, and a
  \<open>read-text\<close> that follows on the same pasteboard exits with code 0 and writes
  exactly \<open>s\<close> to standard output, with nothing appended. The same holds for the
  two commands run from their argument vectors, without a pasteboard name and with any
  name.
\<close>

theorem text_round_trip:
  assumes "utf8_valid P s"
    and "getPasteboard (pasteboard args') = getPasteboard (pasteboard args)"
  shows "(\<exists>w'. cmdWriteText P args s w = (Inr [], w')
           \<and> cmdReadText P args' w' = (Inr s, w')
           \<and> written_stdout (fst (cmdReadText P args' w')) = s
           \<and> exit_status (fst (cmdReadText P args' w')) = 0)
     \<and> (\<exists>w'. pbhelper P [argv0, ''write-text''] s w = (Inr [], w')
           \<and> pbhelper P [argv0, ''read-text''] input' w' = (Inr s, w'))
     \<and> (\<exists>w'. pbhelper P [argv0, ''write-text'', ''--pasteboard'', name] s w = (Inr [], w')
           \<and> pbhelper P [argv0, ''read-text'', ''--pasteboard'', name] input' w' = (Inr s, w'))"
proof -
  have round: "\<And>a a'. getPasteboard (pasteboard a') = getPasteboard (pasteboard a) \<Longrightarrow>
      cmdReadText P a' (snd (cmdWriteText P a s w)) = (Inr s, snd (cmdWriteText P a s w))"
    using assms(1)
    by (simp add: cmdWriteText_valid cmdReadText_def stringForType_def stringFromData_def)
  have wr: "\<And>a. cmdWriteText P a s w = (Inr [], snd (cmdWriteText P a s w))"
    using assms(1) by (simp add: cmdWriteText_valid)
  have 1: "\<exists>w'. cmdWriteText P args s w = (Inr [], w')
           \<and> cmdReadText P args' w' = (Inr s, w')
           \<and> written_stdout (fst (cmdReadText P args' w')) = s
           \<and> exit_status (fst (cmdReadText P args' w')) = 0"
    using wr [of args] round [OF assms(2)] by (intro exI [of _ "snd (cmdWriteText P args s w)"]) simp
  have 2: "\<exists>w'. pbhelper P [argv0, ''write-text''] s w = (Inr [], w')
           \<and> pbhelper P [argv0, ''read-text''] input' w' = (Inr s, w')"
    using wr [of "Args_init\<lparr>command := ''write-text''\<rparr>"]
      round [of "Args_init\<lparr>command := ''read-text''\<rparr>" "Args_init\<lparr>command := ''write-text''\<rparr>"]
    by (intro exI [of _ "snd (cmdWriteText P (Args_init\<lparr>command := ''write-text''\<rparr>) s w)"])
      (simp add: pbhelper_def run_command_def)
  have 3: "\<exists>w'. pbhelper P [argv0, ''write-text'', ''--pasteboard'', name] s w = (Inr [], w')
           \<and> pbhelper P [argv0, ''read-text'', ''--pasteboard'', name] input' w' = (Inr s, w')"
    using wr [of "Args_init\<lparr>command := ''write-text'', pasteboard := Some name\<rparr>"]
      round [of "Args_init\<lparr>command := ''read-text'', pasteboard := Some name\<rparr>"
        "Args_init\<lparr>command := ''write-text'', pasteboard := Some name\<rparr>"]
    by (intro exI [of _ "snd (cmdWriteText P
          (Args_init\<lparr>command := ''write-text'', pasteboard := Some name\<rparr>) s w)"])
      (simp add: pbhelper_def run_command_def)
  show ?thesis using 1 2 3 by (intro conjI)
qed

text \<open>
  The round trip on a string with a two-byte character and a line feed, read back under
  the name \<open>general\<close>, and on the empty string.
\<close>

theorem text_round_trip_witness:
  "utf8_valid example_platform [CHR ''c'', CHR ''a'', CHR ''f'', CHR 0xC3, CHR 0xA9, CHR 0x0A, CHR ''!'']
   \<and> getPasteboard (pasteboard (Args_init\<lparr>command := ''read-text'', pasteboard := Some ''general''\<rparr>))
       = getPasteboard (pasteboard (Args_init\<lparr>command := ''write-text''\<rparr>))
   \<and> (\<exists>w'. cmdWriteText example_platform (Args_init\<lparr>command := ''write-text''\<rparr>)
               [CHR ''c'', CHR ''a'', CHR ''f'', CHR 0xC3, CHR 0xA9, CHR 0x0A, CHR ''!'']
               used_pasteboards = (Inr [], w')
        \<and> cmdReadText example_platform
               (Args_init\<lparr>command := ''read-text'', pasteboard := Some ''general''\<rparr>) w'
             = (Inr [CHR ''c'', CHR ''a'', CHR ''f'', CHR 0xC3, CHR 0xA9, CHR 0x0A, CHR ''!''], w'))
   \<and> utf8_valid example_platform []
   \<and> (\<exists>w'. cmdWriteText example_platform (Args_init\<lparr>command := ''write-text''\<rparr>) []
               used_pasteboards = (Inr [], w')
        \<and> cmdReadText example_platform (Args_init\<lparr>command := ''read-text''\<rparr>) w'
             = (Inr [], w'))"
proof -
  have h1: "utf8_valid example_platform
      [CHR ''c'', CHR ''a'', CHR ''f'', CHR 0xC3, CHR 0xA9, CHR 0x0A, CHR ''!'']"
    by (rule example_utf8(3))
  have h2: "getPasteboard (pasteboard (Args_init\<lparr>command := ''read-text'', pasteboard := Some ''general''\<rparr>))
       = getPasteboard (pasteboard (Args_init\<lparr>command := ''write-text''\<rparr>))"
    by simp
  have h3: "utf8_valid example_platform []" by (rule example_utf8(1))
  have h4: "getPasteboard (pasteboard (Args_init\<lparr>command := ''read-text''\<rparr>))
       = getPasteboard (pasteboard (Args_init\<lparr>command := ''write-text''\<rparr>))"
    by simp
  show ?thesis
    using h1 h2 h3
      text_round_trip [OF h1 h2, where w = used_pasteboards, THEN conjunct1]
      text_round_trip [OF h3 h4, where w = used_pasteboards, THEN conjunct1]
    by blast
qed

subsection \<open>The representations of a written image\<close>



subsection \<open>Reading an image\<close>



subsection \<open>Reading text\<close>

text \<open>
  Claim C5, as amended. \<open>read-text\<close> fails exactly when the pasteboard gives no string
  for the plain-text type, which is the case when the pasteboard has no plain-text
  representation and also when it has one whose bytes are not valid UTF-8. It then
  writes ``No text on pasteboard'' and a newline to standard error and exits with code 1.
  Otherwise it succeeds with exactly the string of that representation on standard
  output. An empty output therefore means that the pasteboard held the plain-text type
  with an empty payload.
\<close>

theorem read_text_absent_fails:
  fixes P :: "'img platform"
  shows
    "(exit_status (fst (cmdReadText P args w)) \<noteq> 0
        \<longleftrightarrow> PasteboardType_string \<notin> set (types (w (getPasteboard (pasteboard args))))
            \<or> (\<exists>d. dataForType (w (getPasteboard (pasteboard args))) PasteboardType_string
                       = Some d
                     \<and> \<not> utf8_valid P d))
     \<and> (exit_status (fst (cmdReadText P args w)) \<noteq> 0 \<longrightarrow>
          cmdReadText P args w = (Inl (''No text on pasteboard'' @ newline, 1), w))
     \<and> (PasteboardType_string \<notin> set (types (w (getPasteboard (pasteboard args)))) \<longrightarrow>
          cmdReadText P args w = (Inl (''No text on pasteboard'' @ newline, 1), w))
     \<and> (\<forall>d. dataForType (w (getPasteboard (pasteboard args))) PasteboardType_string = Some d
              \<and> \<not> utf8_valid P d \<longrightarrow>
          PasteboardType_string \<in> set (types (w (getPasteboard (pasteboard args))))
          \<and> cmdReadText P args w = (Inl (''No text on pasteboard'' @ newline, 1), w))
     \<and> (\<forall>d. dataForType (w (getPasteboard (pasteboard args))) PasteboardType_string = Some d
              \<and> utf8_valid P d \<longrightarrow>
          cmdReadText P args w = (Inr d, w))
     \<and> (cmdReadText P args w = (Inr [], w) \<longrightarrow>
          dataForType (w (getPasteboard (pasteboard args))) PasteboardType_string = Some [])"
proof -
  let ?pb = "w (getPasteboard (pasteboard args))"
  let ?failure = "(Inl (''No text on pasteboard'' @ newline, 1), w)"
  have absent: "PasteboardType_string \<notin> set (types ?pb) \<Longrightarrow> cmdReadText P args w = ?failure"
    by (simp add: cmdReadText_def exitError_def stringForType_absent)
  have undecodable: "\<And>d. dataForType ?pb PasteboardType_string = Some d \<Longrightarrow>
      \<not> utf8_valid P d \<Longrightarrow> cmdReadText P args w = ?failure"
    by (simp add: cmdReadText_def exitError_def stringForType_def dataForType_def
        stringFromData_def)
  have decodable: "\<And>d. dataForType ?pb PasteboardType_string = Some d \<Longrightarrow> utf8_valid P d \<Longrightarrow>
      cmdReadText P args w = (Inr d, w)"
    by (simp add: cmdReadText_def stringForType_def dataForType_def stringFromData_def)
  have present: "\<And>d. dataForType ?pb PasteboardType_string = Some d \<Longrightarrow>
      PasteboardType_string \<in> set (types ?pb)"
    using absent_type [of ?pb PasteboardType_string] by auto
  have c1: "exit_status (fst (cmdReadText P args w)) \<noteq> 0
      \<longleftrightarrow> PasteboardType_string \<notin> set (types ?pb)
          \<or> (\<exists>d. dataForType ?pb PasteboardType_string = Some d \<and> \<not> utf8_valid P d)"
  proof (cases "dataForType ?pb PasteboardType_string")
    case None
    then show ?thesis
      using absent absent_type [of ?pb PasteboardType_string] by simp
  next
    case (Some d)
    then show ?thesis
      using present [OF Some] undecodable [OF Some] decodable [OF Some]
      by (cases "utf8_valid P d") simp_all
  qed
  have c2: "exit_status (fst (cmdReadText P args w)) \<noteq> 0 \<longrightarrow> cmdReadText P args w = ?failure"
    using c1 absent undecodable by blast
  have c3: "PasteboardType_string \<notin> set (types ?pb) \<longrightarrow> cmdReadText P args w = ?failure"
    using absent by blast
  have c4: "\<forall>d. dataForType ?pb PasteboardType_string = Some d \<and> \<not> utf8_valid P d \<longrightarrow>
      PasteboardType_string \<in> set (types ?pb) \<and> cmdReadText P args w = ?failure"
    using present undecodable by blast
  have c5: "\<forall>d. dataForType ?pb PasteboardType_string = Some d \<and> utf8_valid P d \<longrightarrow>
      cmdReadText P args w = (Inr d, w)"
    using decodable by blast
  have c6: "cmdReadText P args w = (Inr [], w) \<longrightarrow>
      dataForType ?pb PasteboardType_string = Some []"
    by (auto simp: cmdReadText_def Let_def dest: stringForType_stored split: option.splits)
  show ?thesis
    using c1 c2 c3 c4 c5 c6 by (intro conjI)
qed

text \<open>
  On an empty pasteboard, on one with the text \<open>hello\<close>, on one with the empty text,
  and on one whose plain-text representation is the single byte \<open>0xFF\<close>.
\<close>

theorem read_text_absent_fails_witness:
  "PasteboardType_string \<notin> set (types (empty_pasteboards general))
   \<and> cmdReadText example_platform (Args_init\<lparr>command := ''read-text''\<rparr>) empty_pasteboards
      = (Inl (''No text on pasteboard'' @ newline, 1), empty_pasteboards)
   \<and> exit_status (fst (cmdReadText example_platform (Args_init\<lparr>command := ''read-text''\<rparr>)
                          empty_pasteboards)) \<noteq> 0
   \<and> dataForType ((empty_pasteboards(general := [(PasteboardType_string, ''hello'')])) general)
        PasteboardType_string = Some ''hello''
   \<and> utf8_valid example_platform ''hello''
   \<and> cmdReadText example_platform (Args_init\<lparr>command := ''read-text''\<rparr>)
        (empty_pasteboards(general := [(PasteboardType_string, ''hello'')]))
      = (Inr ''hello'', empty_pasteboards(general := [(PasteboardType_string, ''hello'')]))
   \<and> utf8_valid example_platform []
   \<and> cmdReadText example_platform (Args_init\<lparr>command := ''read-text''\<rparr>)
        (empty_pasteboards(general := [(PasteboardType_string, [])]))
      = (Inr [], empty_pasteboards(general := [(PasteboardType_string, [])]))
   \<and> dataForType ((empty_pasteboards(general := [(PasteboardType_string, [])])) general)
        PasteboardType_string = Some []
   \<and> dataForType ((empty_pasteboards(general := [(PasteboardType_string, [CHR 0xFF])])) general)
        PasteboardType_string = Some [CHR 0xFF]
   \<and> \<not> utf8_valid example_platform [CHR 0xFF]
   \<and> PasteboardType_string
       \<in> set (types ((empty_pasteboards(general := [(PasteboardType_string, [CHR 0xFF])]))
                       general))
   \<and> cmdReadText example_platform (Args_init\<lparr>command := ''read-text''\<rparr>)
        (empty_pasteboards(general := [(PasteboardType_string, [CHR 0xFF])]))
      = (Inl (''No text on pasteboard'' @ newline, 1),
         empty_pasteboards(general := [(PasteboardType_string, [CHR 0xFF])]))
   \<and> exit_status (fst (cmdReadText example_platform (Args_init\<lparr>command := ''read-text''\<rparr>)
        (empty_pasteboards(general := [(PasteboardType_string, [CHR 0xFF])])))) \<noteq> 0"
proof -
  let ?args = "Args_init\<lparr>command := ''read-text''\<rparr>"
  let ?w2 = "empty_pasteboards(general := [(PasteboardType_string, ''hello'')])"
  let ?w3 = "empty_pasteboards(general := [(PasteboardType_string, [])])"
  let ?w4 = "empty_pasteboards(general := [(PasteboardType_string, [CHR 0xFF])])"
  note T1 = read_text_absent_fails [where P = example_platform and w = empty_pasteboards
      and args = ?args]
  note T2 = read_text_absent_fails [where P = example_platform and w = ?w2 and args = ?args]
  note T3 = read_text_absent_fails [where P = example_platform and w = ?w3 and args = ?args]
  note T4 = read_text_absent_fails [where P = example_platform and w = ?w4 and args = ?args]
  have g: "getPasteboard (pasteboard ?args) = general" by simp
  have h1: "PasteboardType_string \<notin> set (types (empty_pasteboards general))"
    by (simp add: types_def)
  have d2: "dataForType (?w2 general) PasteboardType_string = Some ''hello''"
    and d3: "dataForType (?w3 general) PasteboardType_string = Some []"
    and d4: "dataForType (?w4 general) PasteboardType_string = Some [CHR 0xFF]"
    by (simp_all add: dataForType_def)
  note u2 = example_utf8(2)
  note u3 = example_utf8(1)
  note u4 = example_utf8(4)
  have c1: "cmdReadText example_platform ?args empty_pasteboards
      = (Inl (''No text on pasteboard'' @ newline, 1), empty_pasteboards)"
    using T1 [THEN conjunct2, THEN conjunct2, THEN conjunct1] h1 g by simp
  have e1: "exit_status (fst (cmdReadText example_platform ?args empty_pasteboards)) \<noteq> 0"
    using T1 [THEN conjunct1] h1 g by simp
  have c2: "cmdReadText example_platform ?args ?w2 = (Inr ''hello'', ?w2)"
    using T2 [THEN conjunct2, THEN conjunct2, THEN conjunct2, THEN conjunct2, THEN conjunct1,
        THEN spec, of "''hello''"] d2 u2 g
    by simp
  have c3: "cmdReadText example_platform ?args ?w3 = (Inr [], ?w3)"
    using T3 [THEN conjunct2, THEN conjunct2, THEN conjunct2, THEN conjunct2, THEN conjunct1,
        THEN spec, of "[]"] d3 u3 g
    by simp
  have c3': "dataForType (?w3 general) PasteboardType_string = Some []"
    using T3 [THEN conjunct2, THEN conjunct2, THEN conjunct2, THEN conjunct2, THEN conjunct2]
      c3 g
    by simp
  have c4: "PasteboardType_string \<in> set (types (?w4 general))
      \<and> cmdReadText example_platform ?args ?w4
          = (Inl (''No text on pasteboard'' @ newline, 1), ?w4)"
    using T4 [THEN conjunct2, THEN conjunct2, THEN conjunct2, THEN conjunct1, THEN spec,
        of "[CHR 0xFF]"] d4 u4 g
    by simp
  have e4: "exit_status (fst (cmdReadText example_platform ?args ?w4)) \<noteq> 0"
    by (simp add: c4 [THEN conjunct2])
  have c4': "cmdReadText example_platform ?args ?w4
      = (Inl (''No text on pasteboard'' @ newline, 1), ?w4)"
    using T4 [THEN conjunct2, THEN conjunct1] e4 by simp
  show ?thesis
    using h1 c1 e1 d2 u2 c2 u3 c3 c3' d4 u4 c4 [THEN conjunct1] c4' e4 by (intro conjI)
qed

text \<open>
  Claim C5 as it was stated has \<open>read-text\<close> succeed whenever the pasteboard has a
  plain-text representation. \<open>write --type public.utf8-plain-text --base64\<close> with the
  standard input \<open>/w==\<close> stores the byte \<open>0xFF\<close> under the plain-text type;
  the pasteboard then has that type with those bytes, and \<open>read-text\<close> fails with
  ``No text on pasteboard''.
\<close>

theorem read_text_fails_on_plain_text_bytes:
  "pbhelper example_platform
      [''pbhelper'', ''write'', ''--type'', ''public.utf8-plain-text'', ''--base64''] ''/w==''
      empty_pasteboards
     = (Inr [], empty_pasteboards(general := [(''public.utf8-plain-text'', [CHR 0xFF])]))
   \<and> PasteboardType_string = ''public.utf8-plain-text''
   \<and> PasteboardType_string
       \<in> set (types ((empty_pasteboards(general := [(''public.utf8-plain-text'', [CHR 0xFF])]))
                       general))
   \<and> dataForType ((empty_pasteboards(general := [(''public.utf8-plain-text'', [CHR 0xFF])]))
                     general) PasteboardType_string = Some [CHR 0xFF]
   \<and> pbhelper example_platform [''pbhelper'', ''read-text''] []
        (empty_pasteboards(general := [(''public.utf8-plain-text'', [CHR 0xFF])]))
     = (Inl (''No text on pasteboard'' @ newline, 1),
        empty_pasteboards(general := [(''public.utf8-plain-text'', [CHR 0xFF])]))
   \<and> exit_status (fst (pbhelper example_platform [''pbhelper'', ''read-text''] []
        (empty_pasteboards(general := [(''public.utf8-plain-text'', [CHR 0xFF])])))) = 1"
proof -
  let ?w = "empty_pasteboards(general := [(''public.utf8-plain-text'', [CHR 0xFF])])"
  have wr: "pbhelper example_platform
      [''pbhelper'', ''write'', ''--type'', ''public.utf8-plain-text'', ''--base64''] ''/w==''
      empty_pasteboards = (Inr [], ?w)"
    by (simp add: pbhelper_def run_command_def cmdWrite_def example_decodes
        clearContents_def)
  have s: "PasteboardType_string = ''public.utf8-plain-text''"
    by (simp add: PasteboardType_string_def)
  have t: "PasteboardType_string \<in> set (types (?w general))"
    by (simp add: types_def PasteboardType_string_def)
  have d: "dataForType (?w general) PasteboardType_string = Some [CHR 0xFF]"
    by (simp add: dataForType_def PasteboardType_string_def)
  have r: "pbhelper example_platform [''pbhelper'', ''read-text''] [] ?w
      = (Inl (''No text on pasteboard'' @ newline, 1), ?w)"
    by (simp add: pbhelper_def run_command_def cmdReadText_def stringForType_def
        stringFromData_def PasteboardType_string_def example_utf8 exitError_def)
  have e: "exit_status (fst (pbhelper example_platform [''pbhelper'', ''read-text''] [] ?w)) = 1"
    by (simp add: r)
  show ?thesis
    using wr s t d r e by (intro conjI)
qed

subsection \<open>What the bridge returns\<close>

text \<open>
  Claim C6. For each of the eight operations of the bridge, once the adapter process has
  closed: when its exit code is not 0 the operation rejects with an error whose message
  is the standard error text with the white space at both ends removed, or, when nothing
  is left of it, ``pbhelper exited with code'' followed by the code; when the exit code is
  0 the outcome does not depend on the standard error text: \<open>listTypes\<close> gives what
  \<open>JSON.parse\<close> makes of the decoded standard output, \<open>readText\<close>, \<open>readImage\<close>
  and \<open>readData\<close> resolve with the decoded standard output, and the operations
  without a result (\<open>writeText\<close>, \<open>writeImage\<close>, \<open>writeData\<close>, \<open>clear\<close>)
  resolve. The trimmed text is the standard error text without a prefix and a suffix of
  white space, and neither starts nor ends with white space; the code in the generic
  message is printed in decimal.
\<close>

theorem bridge_result:
  fixes N :: "('json, 'w) node"
  defines "message \<equiv> \<lambda>result.
     (if js_trim (stderr result) = []
      then js ''pbhelper exited with code '' @ Number_toString (exitCode result)
      else js_trim (stderr result))"
  defines "rejected \<equiv> \<lambda>result. exitCode result \<noteq> 0"
  shows
    "(execPbHelper N (js ''list-types'' # pbArgs p) None w = (Inr result, w') \<longrightarrow>
        listTypes N p w =
          (if rejected result then Inl (Error (message result))
           else JSON_parse N (Buffer_toString N (stdout result)), w'))
     \<and> (execPbHelper N (js ''read-text'' # pbArgs p) None w = (Inr result, w') \<longrightarrow>
        readText N p w =
          (if rejected result then Inl (Error (message result))
           else Inr (Buffer_toString N (stdout result)), w'))
     \<and> (execPbHelper N ([js ''read-image'', js ''--format'',
                           case fmt of None \<Rightarrow> js ''png'' | Some f \<Rightarrow> f] @ pbArgs p) None w
           = (Inr result, w') \<longrightarrow>
        readImage N p fmt w =
          (if rejected result then Inl (Error (message result))
           else Inr (Buffer_toString N (stdout result)), w'))
     \<and> (execPbHelper N ([js ''read'', js ''--type'', t] @ pbArgs p) None w = (Inr result, w') \<longrightarrow>
        readData N t p w =
          (if rejected result then Inl (Error (message result))
           else Inr (Buffer_toString N (stdout result)), w'))
     \<and> (execPbHelper N (js ''write-text'' # pbArgs p) (Some payload) w = (Inr result, w') \<longrightarrow>
        writeText N payload p w =
          (if rejected result then Inl (Error (message result)) else Inr (), w'))
     \<and> (execPbHelper N ([js ''write-image'', js ''--format'',
                           case fmt of None \<Rightarrow> js ''png'' | Some f \<Rightarrow> f] @ pbArgs p)
            (Some payload) w = (Inr result, w') \<longrightarrow>
        writeImage N payload p fmt w =
          (if rejected result then Inl (Error (message result)) else Inr (), w'))
     \<and> (execPbHelper N ([js ''write'', js ''--type'', t]
                          @ (if b64 then [js ''--base64''] else []) @ pbArgs p)
            (Some payload) w = (Inr result, w') \<longrightarrow>
        writeData N t payload b64 p w =
          (if rejected result then Inl (Error (message result)) else Inr (), w'))
     \<and> (execPbHelper N (js ''clear'' # pbArgs p) None w = (Inr result, w') \<longrightarrow>
        clear N p w =
          (if rejected result then Inl (Error (message result)) else Inr (), w'))
     \<and> (\<exists>pre suf. stderr result = pre @ js_trim (stderr result) @ suf
           \<and> (\<forall>c \<in> set pre. js_white_space c) \<and> (\<forall>c \<in> set suf. js_white_space c))
     \<and> (js_trim (stderr result) \<noteq> [] \<longrightarrow>
           \<not> js_white_space (hd (js_trim (stderr result)))
           \<and> \<not> js_white_space (last (js_trim (stderr result))))
     \<and> (0 \<le> exitCode result \<longrightarrow>
           Number_toString (exitCode result) = js (decimal (nat (exitCode result)))
           \<and> decimal_value (decimal (nat (exitCode result))) = nat (exitCode result))"
  unfolding message_def rejected_def
  using js_trim_decomposition [of "stderr result"] js_trim_ends [of "stderr result"]
    decimal_value_decimal [of "nat (exitCode result)"]
  by (simp add: listTypes_def readText_def readImage_def readData_def writeText_def
      writeImage_def writeData_def clear_def checkResult_cases Number_toString_def
      del: decimal.simps)

text \<open>
  The readers on a child that failed with a message, the writers and \<open>clear\<close> on a
  child killed without a message, and operations that succeed with a warning on standard
  error.
\<close>

theorem bridge_result_witness:
  "execPbHelper (example_node run_no_text) (js ''list-types'' # pbArgs None) None ()
        = (Inr \<lparr>stdout = [], stderr = js (''No text on pasteboard'' @ newline), exitCode =
          1\<rparr>, ())
   \<and> listTypes (example_node run_no_text) None ()
         = (Inl (Error (js ''No text on pasteboard'')), ())
   \<and> execPbHelper (example_node run_no_text) (js ''read-text'' # pbArgs None) None ()
         = (Inr \<lparr>stdout = [], stderr = js (''No text on pasteboard'' @ newline), exitCode
           = 1\<rparr>, ())
   \<and> readText (example_node run_no_text) None ()
         = (Inl (Error (js ''No text on pasteboard'')), ())
   \<and> execPbHelper (example_node run_no_text) ([js ''read-image'', js ''--format'', case None
           of None \<Rightarrow> js ''png'' | Some f \<Rightarrow> f] @ pbArgs None) None ()
         = (Inr \<lparr>stdout = [], stderr = js (''No text on pasteboard'' @ newline), exitCode
           = 1\<rparr>, ())
   \<and> readImage (example_node run_no_text) None None ()
         = (Inl (Error (js ''No text on pasteboard'')), ())
   \<and> execPbHelper (example_node run_no_text) ([js ''read'', js ''--type'', js
           ''public.tiff''] @ pbArgs None) None ()
         = (Inr \<lparr>stdout = [], stderr = js (''No text on pasteboard'' @ newline), exitCode
           = 1\<rparr>, ())
   \<and> readData (example_node run_no_text) (js ''public.tiff'') None ()
         = (Inl (Error (js ''No text on pasteboard'')), ())
   \<and> execPbHelper (example_node run_killed) (js ''write-text'' # pbArgs None) (Some (js
           ''hi'')) ()
         = (Inr \<lparr>stdout = [], stderr = js newline, exitCode = 137\<rparr>, ())
   \<and> writeText (example_node run_killed) (js ''hi'') None ()
         = (Inl (Error (js ''pbhelper exited with code '' @ js ''137'')), ())
   \<and> execPbHelper (example_node run_killed) ([js ''write-image'', js ''--format'', case None
           of None \<Rightarrow> js ''png'' | Some f \<Rightarrow> f] @ pbArgs None) (Some (js
           ''hi'')) ()
         = (Inr \<lparr>stdout = [], stderr = js newline, exitCode = 137\<rparr>, ())
   \<and> writeImage (example_node run_killed) (js ''hi'') None None ()
         = (Inl (Error (js ''pbhelper exited with code '' @ js ''137'')), ())
   \<and> execPbHelper (example_node run_killed) ([js ''write'', js ''--type'', js
           ''public.tiff''] @ (if True then [js ''--base64''] else []) @ pbArgs None) (Some (js
           ''hi'')) ()
         = (Inr \<lparr>stdout = [], stderr = js newline, exitCode = 137\<rparr>, ())
   \<and> writeData (example_node run_killed) (js ''public.tiff'') (js ''hi'') True None ()
         = (Inl (Error (js ''pbhelper exited with code '' @ js ''137'')), ())
   \<and> execPbHelper (example_node run_killed) (js ''clear'' # pbArgs None) None ()
         = (Inr \<lparr>stdout = [], stderr = js newline, exitCode = 137\<rparr>, ())
   \<and> clear (example_node run_killed) None ()
         = (Inl (Error (js ''pbhelper exited with code '' @ js ''137'')), ())
   \<and> execPbHelper (example_node run_warned) (js ''list-types'' # pbArgs None) None ()
         = (Inr \<lparr>stdout = ''[]'', stderr = js (''warning'' @ newline), exitCode =
           0\<rparr>, ())
   \<and> listTypes (example_node run_warned) None () = (Inr [], ())
   \<and> execPbHelper (example_node run_warned) (js ''read-text'' # pbArgs None) None ()
         = (Inr \<lparr>stdout = ''[]'', stderr = js (''warning'' @ newline), exitCode =
           0\<rparr>, ())
   \<and> readText (example_node run_warned) None () = (Inr (js ''[]''), ())
   \<and> execPbHelper (example_node run_warned) (js ''write-text'' # pbArgs None) (Some (js
           ''hi'')) ()
         = (Inr \<lparr>stdout = ''[]'', stderr = js (''warning'' @ newline), exitCode =
           0\<rparr>, ())
   \<and> writeText (example_node run_warned) (js ''hi'') None () = (Inr (), ())
   \<and> execPbHelper (example_node run_warned) (js ''clear'' # pbArgs None) None ()
         = (Inr \<lparr>stdout = ''[]'', stderr = js (''warning'' @ newline), exitCode =
           0\<rparr>, ())
   \<and> clear (example_node run_warned) None () = (Inr (), ())
   \<and> (0::int) \<le> 137
   \<and> Number_toString 137 = js (decimal (nat 137))
   \<and> decimal_value (decimal (nat 137)) = nat 137
   \<and> js_trim (js (''No text on pasteboard'' @ newline)) \<noteq> []
   \<and> \<not> js_white_space (hd (js_trim (js (''No text on pasteboard'' @ newline))))
   \<and> \<not> js_white_space (last (js_trim (js (''No text on pasteboard'' @ newline))))"
proof -
  note T1 = bridge_result [where N = "example_node run_no_text" and p = None and w = "()"
      and w' = "()"
            and result = "\<lparr>stdout = [], stderr = js (''No text on pasteboard'' @ newline),
              exitCode = 1\<rparr>" and fmt = None and t = "js ''public.tiff''"]
  note T2 = bridge_result [where N = "example_node run_killed" and p = None and w = "()"
      and w' = "()"
            and result = "\<lparr>stdout = [], stderr = js newline, exitCode = 137\<rparr>"
            and payload = "js ''hi''" and fmt = None
      and t = "js ''public.tiff''" and ?b64.0 = True]
  note T3 = bridge_result [where N = "example_node run_warned" and p = None and w = "()"
      and w' = "()"
            and result = "\<lparr>stdout = ''[]'', stderr = js (''warning'' @ newline), exitCode
              = 0\<rparr>"
            and payload = "js ''hi''"]
  have h0: "execPbHelper (example_node run_no_text) (js ''list-types'' # pbArgs None) None ()
        = (Inr \<lparr>stdout = [], stderr = js (''No text on pasteboard'' @ newline), exitCode =
          1\<rparr>, ())"
    by (rule example_runs(1))
  have c0: "listTypes (example_node run_no_text) None ()
        = (Inl (Error (js ''No text on pasteboard'')), ())"
    using T1 [THEN conjunct1, THEN mp, OF h0]
    by (simp only: ExecResult.select_convs example_trims) (simp add: js_not_empty)
  have h1: "execPbHelper (example_node run_no_text) (js ''read-text'' # pbArgs None) None ()
        = (Inr \<lparr>stdout = [], stderr = js (''No text on pasteboard'' @ newline), exitCode =
          1\<rparr>, ())"
    by (rule example_runs(1))
  have c1: "readText (example_node run_no_text) None ()
        = (Inl (Error (js ''No text on pasteboard'')), ())"
    using T1 [THEN conjunct2, THEN conjunct1, THEN mp, OF h1]
    by (simp only: ExecResult.select_convs example_trims) (simp add: js_not_empty)
  have h2: "execPbHelper (example_node run_no_text) ([js ''read-image'', js ''--format'', case
          None of None \<Rightarrow> js ''png'' | Some f \<Rightarrow> f] @ pbArgs None) None ()
        = (Inr \<lparr>stdout = [], stderr = js (''No text on pasteboard'' @ newline), exitCode =
          1\<rparr>, ())"
    by (rule example_runs(1))
  have c2: "readImage (example_node run_no_text) None None ()
        = (Inl (Error (js ''No text on pasteboard'')), ())"
    using T1 [THEN conjunct2, THEN conjunct2, THEN conjunct1, THEN mp, OF h2]
    by (simp only: ExecResult.select_convs example_trims) (simp add: js_not_empty)
  have h3: "execPbHelper (example_node run_no_text) ([js ''read'', js ''--type'', js
          ''public.tiff''] @ pbArgs None) None ()
        = (Inr \<lparr>stdout = [], stderr = js (''No text on pasteboard'' @ newline), exitCode =
          1\<rparr>, ())"
    by (rule example_runs(1))
  have c3: "readData (example_node run_no_text) (js ''public.tiff'') None ()
        = (Inl (Error (js ''No text on pasteboard'')), ())"
    using T1 [THEN conjunct2, THEN conjunct2, THEN conjunct2, THEN conjunct1, THEN mp, OF h3]
    by (simp only: ExecResult.select_convs example_trims) (simp add: js_not_empty)
  have h4: "execPbHelper (example_node run_killed) (js ''write-text'' # pbArgs None) (Some (js
          ''hi'')) ()
        = (Inr \<lparr>stdout = [], stderr = js newline, exitCode = 137\<rparr>, ())"
    by (rule example_runs(2))
  have c4: "writeText (example_node run_killed) (js ''hi'') None ()
        = (Inl (Error (js ''pbhelper exited with code '' @ js ''137'')), ())"
    using T2 [THEN conjunct2, THEN conjunct2, THEN conjunct2, THEN conjunct2, THEN conjunct1,
            THEN mp, OF h4]
    by (simp only: ExecResult.select_convs example_trims example_code) simp
  have h5: "execPbHelper (example_node run_killed) ([js ''write-image'', js ''--format'', case
          None of None \<Rightarrow> js ''png'' | Some f \<Rightarrow> f] @ pbArgs None) (Some
          (js ''hi'')) ()
        = (Inr \<lparr>stdout = [], stderr = js newline, exitCode = 137\<rparr>, ())"
    by (rule example_runs(2))
  have c5: "writeImage (example_node run_killed) (js ''hi'') None None ()
        = (Inl (Error (js ''pbhelper exited with code '' @ js ''137'')), ())"
    using T2 [THEN conjunct2, THEN conjunct2, THEN conjunct2, THEN conjunct2, THEN conjunct2,
            THEN conjunct1, THEN mp, OF h5]
    by (simp only: ExecResult.select_convs example_trims example_code) simp
  have h6: "execPbHelper (example_node run_killed) ([js ''write'', js ''--type'', js
          ''public.tiff''] @ (if True then [js ''--base64''] else []) @ pbArgs None) (Some (js
          ''hi'')) ()
        = (Inr \<lparr>stdout = [], stderr = js newline, exitCode = 137\<rparr>, ())"
    by (rule example_runs(2))
  have c6: "writeData (example_node run_killed) (js ''public.tiff'') (js ''hi'') True None ()
        = (Inl (Error (js ''pbhelper exited with code '' @ js ''137'')), ())"
    using T2 [THEN conjunct2, THEN conjunct2, THEN conjunct2, THEN conjunct2, THEN conjunct2,
            THEN conjunct2, THEN conjunct1, THEN mp, OF h6]
    by (simp only: ExecResult.select_convs example_trims example_code) simp
  have h7: "execPbHelper (example_node run_killed) (js ''clear'' # pbArgs None) None ()
        = (Inr \<lparr>stdout = [], stderr = js newline, exitCode = 137\<rparr>, ())"
    by (rule example_runs(2))
  have c7: "clear (example_node run_killed) None ()
        = (Inl (Error (js ''pbhelper exited with code '' @ js ''137'')), ())"
    using T2 [THEN conjunct2, THEN conjunct2, THEN conjunct2, THEN conjunct2, THEN conjunct2,
            THEN conjunct2, THEN conjunct2, THEN conjunct1, THEN mp, OF h7]
    by (simp only: ExecResult.select_convs example_trims example_code) simp
  have h8: "execPbHelper (example_node run_warned) (js ''list-types'' # pbArgs None) None ()
        = (Inr \<lparr>stdout = ''[]'', stderr = js (''warning'' @ newline), exitCode =
          0\<rparr>, ())"
    by (rule example_runs(3))
  have c8: "listTypes (example_node run_warned) None () = (Inr [], ())"
    using T3 [THEN conjunct1, THEN mp, OF h8]
    by (simp only: ExecResult.select_convs example_node_fields) simp
  have h9: "execPbHelper (example_node run_warned) (js ''read-text'' # pbArgs None) None ()
        = (Inr \<lparr>stdout = ''[]'', stderr = js (''warning'' @ newline), exitCode =
          0\<rparr>, ())"
    by (rule example_runs(3))
  have c9: "readText (example_node run_warned) None () = (Inr (js ''[]''), ())"
    using T3 [THEN conjunct2, THEN conjunct1, THEN mp, OF h9]
    by (simp only: ExecResult.select_convs example_node_fields) simp
  have h10: "execPbHelper (example_node run_warned) (js ''write-text'' # pbArgs None) (Some (js
          ''hi'')) ()
        = (Inr \<lparr>stdout = ''[]'', stderr = js (''warning'' @ newline), exitCode =
          0\<rparr>, ())"
    by (rule example_runs(3))
  have c10: "writeText (example_node run_warned) (js ''hi'') None () = (Inr (), ())"
    using T3 [THEN conjunct2, THEN conjunct2, THEN conjunct2, THEN conjunct2, THEN conjunct1,
            THEN mp, OF h10]
    by simp
  have h11: "execPbHelper (example_node run_warned) (js ''clear'' # pbArgs None) None ()
        = (Inr \<lparr>stdout = ''[]'', stderr = js (''warning'' @ newline), exitCode =
          0\<rparr>, ())"
    by (rule example_runs(3))
  have c11: "clear (example_node run_warned) None () = (Inr (), ())"
    using T3 [THEN conjunct2, THEN conjunct2, THEN conjunct2, THEN conjunct2, THEN conjunct2,
            THEN conjunct2, THEN conjunct2, THEN conjunct1, THEN mp, OF h11]
    by simp
  have pos: "(0::int) \<le> 137" by simp
  have d: "Number_toString 137 = js (decimal (nat 137))
      \<and> decimal_value (decimal (nat 137)) = nat 137"
    using T2 [THEN conjunct2, THEN conjunct2, THEN conjunct2, THEN conjunct2, THEN conjunct2,
        THEN conjunct2, THEN conjunct2, THEN conjunct2, THEN conjunct2, THEN conjunct2,
        THEN mp]
    by (simp only: ExecResult.select_convs)
  have ne: "js_trim (js (''No text on pasteboard'' @ newline)) \<noteq> []"
    by (simp only: example_trims) (simp add: js_not_empty)
  have ends: "\<not> js_white_space (hd (js_trim (js (''No text on pasteboard'' @ newline))))
      \<and> \<not> js_white_space (last (js_trim (js (''No text on pasteboard'' @ newline))))"
    using T1 [THEN conjunct2, THEN conjunct2, THEN conjunct2, THEN conjunct2, THEN conjunct2,
        THEN conjunct2, THEN conjunct2, THEN conjunct2, THEN conjunct2, THEN conjunct1,
        THEN mp] ne
    by (simp only: ExecResult.select_convs simp_thms)
  show ?thesis
    using h0 c0 h1 c1 h2 c2 h3 c3 h4 c4 h5 c5 h6 c6 h7 c7 h8 c8 h9 c9 h10 c10 h11 c11 pos d [THEN
            conjunct1] d [THEN conjunct2] ne
      ends [THEN conjunct1] ends [THEN conjunct2]
    by (intro conjI)
qed

subsection \<open>Reading a type\<close>

text \<open>
  Claim C7. For every type identifier \<open>t\<close>, \<open>read --type t\<close> writes the string of
  \<open>t\<close> to standard output when the pasteboard gives one, without asking for its
  bytes; only when it gives no string does the command take the bytes of \<open>t\<close> and
  write their base64 text; when the pasteboard has neither, the command fails with code 1 and
  the message ``No data for type \<open>t\<close> on pasteboard''.
\<close>

theorem read_typed_string_first:
  assumes "type args = Some t"
  shows
    "(\<forall>str. stringForType P (w (getPasteboard (pasteboard args))) t = Some str \<longrightarrow>
        cmdRead P args w = (Inr str, w))
     \<and> (\<forall>data. stringForType P (w (getPasteboard (pasteboard args))) t = None
           \<and> dataForType (w (getPasteboard (pasteboard args))) t = Some data \<longrightarrow>
        cmdRead P args w = (Inr (base64EncodedString P data), w))
     \<and> (stringForType P (w (getPasteboard (pasteboard args))) t = None
           \<and> dataForType (w (getPasteboard (pasteboard args))) t = None \<longrightarrow>
        cmdRead P args w = (Inl (''No data for type '' @ t @ '' on pasteboard'' @ newline, 1), w))"
  using assms by (simp add: cmdRead_def exitError_def)

text \<open>
  A payload that is a string, one that is not (the byte \<open>0xFF\<close>), and no payload.
\<close>

theorem read_typed_string_first_witness:
  "type (Args_init\<lparr>command := ''read'', type := Some ''com.test.custom''\<rparr>)
     = Some ''com.test.custom''
   \<and> stringForType example_platform [(''com.test.custom'', ''hello'')] ''com.test.custom''
     = Some ''hello''
   \<and> cmdRead example_platform (Args_init\<lparr>command := ''read'', type := Some ''com.test.custom''\<rparr>)
        (empty_pasteboards(general := [(''com.test.custom'', ''hello'')]))
      = (Inr ''hello'', empty_pasteboards(general := [(''com.test.custom'', ''hello'')]))
   \<and> stringForType example_platform [(''com.test.custom'', [CHR 0xFF])] ''com.test.custom''
     = None
   \<and> dataForType [(''com.test.custom'', [CHR 0xFF])] ''com.test.custom'' = Some [CHR 0xFF]
   \<and> cmdRead example_platform (Args_init\<lparr>command := ''read'', type := Some ''com.test.custom''\<rparr>)
        (empty_pasteboards(general := [(''com.test.custom'', [CHR 0xFF])]))
      = (Inr ''/w=='', empty_pasteboards(general := [(''com.test.custom'', [CHR 0xFF])]))
   \<and> cmdRead example_platform (Args_init\<lparr>command := ''read'', type := Some ''com.test.custom''\<rparr>)
        empty_pasteboards
      = (Inl (''No data for type com.test.custom on pasteboard'' @ newline, 1),
         empty_pasteboards)"
proof -
  let ?args = "Args_init\<lparr>command := ''read'', type := Some ''com.test.custom''\<rparr>"
  have h: "type ?args = Some ''com.test.custom''" by simp
  have s1: "stringForType example_platform [(''com.test.custom'', ''hello'')] ''com.test.custom''
     = Some ''hello''"
    by (simp add: stringForType_def stringFromData_def example_utf8)
  have s2: "stringForType example_platform [(''com.test.custom'', [CHR 0xFF])] ''com.test.custom''
     = None"
    by (simp add: stringForType_def stringFromData_def example_utf8)
  have s3: "stringForType example_platform (empty_pasteboards general) ''com.test.custom'' = None"
    "dataForType (empty_pasteboards general) ''com.test.custom'' = None"
    by (simp_all add: stringForType_def dataForType_def)
  have d2: "dataForType [(''com.test.custom'', [CHR 0xFF])] ''com.test.custom'' = Some [CHR 0xFF]"
    by (simp add: dataForType_def)
  note T1 = read_typed_string_first [OF h, where P = example_platform
      and w = "empty_pasteboards(general := [(''com.test.custom'', ''hello'')])"]
  note T2 = read_typed_string_first [OF h, where P = example_platform
      and w = "empty_pasteboards(general := [(''com.test.custom'', [CHR 0xFF])])"]
  note T3 = read_typed_string_first [OF h, where P = example_platform and w = empty_pasteboards]
  show ?thesis
    using h s1 s2 s3 d2 T1 T2 T3 by (simp add: example_encodes)
qed

subsection \<open>Pasteboard resolution\<close>

text \<open>
  Claim C8. \<open>getPasteboard\<close> is defined on every optional name: no name and the name
  \<open>general\<close> give the general pasteboard, so that every command does the same under
  the two; \<open>find\<close>, \<open>font\<close>, \<open>ruler\<close> and \<open>drag\<close> give the pasteboards of
  these names; every other string gives the pasteboard named by that string, and the
  argument parser takes any string after \<open>--pasteboard\<close> as the name. The bridge
  passes a name that is not empty unchanged after \<open>--pasteboard\<close>, and passes
  nothing for no name and for the empty name.
\<close>

theorem pasteboard_resolution:
  fixes P :: "'img platform"
  shows
    "getPasteboard None = general
     \<and> getPasteboard (Some ''general'') = general
     \<and> getPasteboard (Some ''find'') = find
     \<and> getPasteboard (Some ''font'') = font
     \<and> getPasteboard (Some ''ruler'') = ruler
     \<and> getPasteboard (Some ''drag'') = drag
     \<and> (name \<notin> {''general'', ''find'', ''font'', ''ruler'', ''drag''} \<longrightarrow>
          getPasteboard (Some name) = Name name)
     \<and> run_command P (args\<lparr>pasteboard := None\<rparr>) input w
          = run_command P (args\<lparr>pasteboard := Some ''general''\<rparr>) input w
     \<and> parseArgs_loop args (''--pasteboard'' # name # rest)
          = parseArgs_loop (args\<lparr>pasteboard := Some name\<rparr>) rest
     \<and> pbArgs None = [] \<and> pbArgs (Some []) = []
     \<and> (p \<noteq> [] \<longrightarrow> pbArgs (Some p) = [js ''--pasteboard'', p])"
proof -
  have "run_command P (args\<lparr>pasteboard := None\<rparr>) input w
          = run_command P (args\<lparr>pasteboard := Some ''general''\<rparr>) input w"
    by (simp add: run_command_def cmdListTypes_def cmdReadText_def cmdWriteText_def
        cmdReadImage_def cmdWriteImage_def cmdRead_def cmdWrite_def cmdClear_def Let_def
        split: option.splits)
  then show ?thesis by (simp add: pbArgs_def)
qed

text \<open>The name \<open>scratch\<close>, and \<open>clear\<close> with and without the name \<open>general\<close>.\<close>

theorem pasteboard_resolution_witness:
  "''scratch'' \<notin> {''general'', ''find'', ''font'', ''ruler'', ''drag''}
   \<and> getPasteboard (Some ''scratch'') = Name ''scratch''
   \<and> run_command example_platform (Args_init\<lparr>command := ''clear'', pasteboard := None\<rparr>) []
        used_pasteboards
      = run_command example_platform
          (Args_init\<lparr>command := ''clear'', pasteboard := Some ''general''\<rparr>) [] used_pasteboards
   \<and> js ''scratch'' \<noteq> []
   \<and> pbArgs (Some (js ''scratch'')) = [js ''--pasteboard'', js ''scratch'']"
proof -
  have h: "''scratch'' \<notin> {''general'', ''find'', ''font'', ''ruler'', ''drag''}" by simp
  have hp: "js ''scratch'' \<noteq> []" by (rule js_not_empty)
  note T = pasteboard_resolution [where name = "''scratch''" and P = example_platform
      and args = "Args_init\<lparr>command := ''clear''\<rparr>" and input = "[]" and w = used_pasteboards
      and rest = "[]" and p = "js ''scratch''"]
  note T7 = T [THEN conjunct2, THEN conjunct2, THEN conjunct2, THEN conjunct2, THEN conjunct2,
      THEN conjunct2]
  have c: "getPasteboard (Some ''scratch'') = Name ''scratch''"
    by (rule T7 [THEN conjunct1, THEN mp, OF h])
  have r: "run_command example_platform (Args_init\<lparr>command := ''clear'', pasteboard := None\<rparr>) []
        used_pasteboards
      = run_command example_platform
          (Args_init\<lparr>command := ''clear'', pasteboard := Some ''general''\<rparr>) [] used_pasteboards"
    by (rule T7 [THEN conjunct2, THEN conjunct1])
  have a: "pbArgs (Some (js ''scratch'')) = [js ''--pasteboard'', js ''scratch'']"
    by (rule T7 [THEN conjunct2, THEN conjunct2, THEN conjunct2, THEN conjunct2, THEN conjunct2,
          THEN mp, OF hp])
  show ?thesis using h c r hp a by (intro conjI)
qed

subsection \<open>A failed write\<close>

text \<open>
  Claim C9. Whenever \<open>write-text\<close>, \<open>write-image\<close> or \<open>write\<close> exits with a code
  other than 0, and more generally whenever the adapter does, every pasteboard is as it
  was before. The failures of input validation are among them: invalid UTF-8 on standard
  input (\<open>write-text\<close>, \<open>write\<close> without \<open>--base64\<close>), invalid base64
  (\<open>write-image\<close>, \<open>write --base64\<close>) and bytes that are not an image
  (\<open>write-image\<close>) each end the command with its message and the pasteboards
  untouched.
\<close>

theorem failed_write_keeps_pasteboards:
  fixes P :: "'img platform"
  shows
    "(exit_status (fst (cmdWriteText P args input w)) \<noteq> 0 \<longrightarrow>
        snd (cmdWriteText P args input w) = w)
     \<and> (exit_status (fst (cmdWriteImage P args input w)) \<noteq> 0 \<longrightarrow>
        snd (cmdWriteImage P args input w) = w)
     \<and> (exit_status (fst (cmdWrite P args input w)) \<noteq> 0 \<longrightarrow>
        snd (cmdWrite P args input w) = w)
     \<and> (exit_status (fst (pbhelper P argv input w)) \<noteq> 0 \<longrightarrow>
        snd (pbhelper P argv input w) = w)
     \<and> (\<not> utf8_valid P input \<longrightarrow>
        cmdWriteText P args input w = (Inl (exitError ''Invalid UTF-8 input''), w))
     \<and> (type args \<noteq> None \<and> \<not> isBase64 args \<and> \<not> utf8_valid P input \<longrightarrow>
        cmdWrite P args input w = (Inl (exitError ''Invalid UTF-8 input''), w))
     \<and> (type args \<noteq> None \<and> isBase64 args \<and> decodeBase64Input P input = None \<longrightarrow>
        cmdWrite P args input w = (Inl (exitError ''Invalid base64 data''), w))
     \<and> (decodeBase64Input P input = None \<longrightarrow>
        cmdWriteImage P args input w = (Inl (exitError ''Invalid base64 image data''), w))
     \<and> (\<forall>imageData. decodeBase64Input P input = Some imageData
           \<and> bitmapImageRep P imageData = None \<longrightarrow>
        cmdWriteImage P args input w = (Inl (exitError ''Failed to decode image data''), w))"
proof (intro conjI impI allI)
  assume "exit_status (fst (cmdWriteText P args input w)) \<noteq> 0"
  then show "snd (cmdWriteText P args input w) = w"
    using cmdWriteText_failure nonzero_exit by blast
next
  assume "exit_status (fst (cmdWriteImage P args input w)) \<noteq> 0"
  then show "snd (cmdWriteImage P args input w) = w"
    using cmdWriteImage_failure nonzero_exit by blast
next
  assume "exit_status (fst (cmdWrite P args input w)) \<noteq> 0"
  then show "snd (cmdWrite P args input w) = w"
    using cmdWrite_failure nonzero_exit by blast
next
  assume "exit_status (fst (pbhelper P argv input w)) \<noteq> 0"
  then show "snd (pbhelper P argv input w) = w"
    using pbhelper_failure nonzero_exit by blast
next
  assume "\<not> utf8_valid P input"
  then show "cmdWriteText P args input w = (Inl (exitError ''Invalid UTF-8 input''), w)"
    by (simp add: cmdWriteText_def stringFromData_def)
next
  assume "type args \<noteq> None \<and> \<not> isBase64 args \<and> \<not> utf8_valid P input"
  then show "cmdWrite P args input w = (Inl (exitError ''Invalid UTF-8 input''), w)"
    by (auto simp: cmdWrite_def stringFromData_def)
next
  assume "type args \<noteq> None \<and> isBase64 args \<and> decodeBase64Input P input = None"
  then show "cmdWrite P args input w = (Inl (exitError ''Invalid base64 data''), w)"
    by (auto simp: cmdWrite_def)
next
  assume "decodeBase64Input P input = None"
  then show "cmdWriteImage P args input w = (Inl (exitError ''Invalid base64 image data''), w)"
    by (simp add: cmdWriteImage_def)
next
  fix imageData
  assume "decodeBase64Input P input = Some imageData \<and> bitmapImageRep P imageData = None"
  then show "cmdWriteImage P args input w = (Inl (exitError ''Failed to decode image data''), w)"
    by (simp add: cmdWriteImage_def)
qed

text \<open>
  Invalid UTF-8, invalid base64 and base64 of bytes that are no image, on a general
  pasteboard that holds an item.
\<close>

theorem failed_write_keeps_pasteboards_witness:
  "\<not> utf8_valid example_platform [CHR 0xFF]
   \<and> cmdWriteText example_platform
        (Args_init\<lparr>command := ''write'', type := Some ''com.test.custom''\<rparr>) [CHR 0xFF]
        used_pasteboards
      = (Inl (exitError ''Invalid UTF-8 input''), used_pasteboards)
   \<and> exit_status (fst (cmdWriteText example_platform
         (Args_init\<lparr>command := ''write'', type := Some ''com.test.custom''\<rparr>) [CHR 0xFF]
         used_pasteboards)) \<noteq> 0
   \<and> snd (cmdWriteText example_platform
         (Args_init\<lparr>command := ''write'', type := Some ''com.test.custom''\<rparr>) [CHR 0xFF]
         used_pasteboards) = used_pasteboards
   \<and> type (Args_init\<lparr>command := ''write'', type := Some ''com.test.custom''\<rparr>) \<noteq> None
   \<and> \<not> isBase64 (Args_init\<lparr>command := ''write'', type := Some ''com.test.custom''\<rparr>)
   \<and> cmdWrite example_platform
         (Args_init\<lparr>command := ''write'', type := Some ''com.test.custom''\<rparr>) [CHR 0xFF]
         used_pasteboards
      = (Inl (exitError ''Invalid UTF-8 input''), used_pasteboards)
   \<and> exit_status (fst (cmdWrite example_platform
         (Args_init\<lparr>command := ''write'', type := Some ''com.test.custom''\<rparr>) [CHR 0xFF]
         used_pasteboards)) \<noteq> 0
   \<and> snd (cmdWrite example_platform
         (Args_init\<lparr>command := ''write'', type := Some ''com.test.custom''\<rparr>) [CHR 0xFF]
         used_pasteboards) = used_pasteboards
   \<and> exit_status (fst (pbhelper example_platform [''pbhelper'', ''write-text''] [CHR 0xFF]
         used_pasteboards)) \<noteq> 0
   \<and> snd (pbhelper example_platform [''pbhelper'', ''write-text''] [CHR 0xFF] used_pasteboards)
      = used_pasteboards
   \<and> decodeBase64Input example_platform [CHR 0xFF] = None
   \<and> cmdWriteImage example_platform
         (Args_init\<lparr>command := ''write'', type := Some ''com.test.custom''\<rparr>) [CHR 0xFF]
         used_pasteboards
      = (Inl (exitError ''Invalid base64 image data''), used_pasteboards)
   \<and> exit_status (fst (cmdWriteImage example_platform
         (Args_init\<lparr>command := ''write'', type := Some ''com.test.custom''\<rparr>) [CHR 0xFF]
         used_pasteboards)) \<noteq> 0
   \<and> snd (cmdWriteImage example_platform
         (Args_init\<lparr>command := ''write'', type := Some ''com.test.custom''\<rparr>) [CHR 0xFF]
         used_pasteboards) = used_pasteboards
   \<and> decodeBase64Input example_platform ''%%%'' = None
   \<and> cmdWrite example_platform
         (Args_init\<lparr>command := ''write'', type := Some ''com.test.custom'', isBase64 := True\<rparr>)
         ''%%%'' used_pasteboards
      = (Inl (exitError ''Invalid base64 data''), used_pasteboards)
   \<and> decodeBase64Input example_platform ''aGVsbG8='' = Some ''hello''
   \<and> bitmapImageRep example_platform ''hello'' = None
   \<and> cmdWriteImage example_platform (Args_init\<lparr>command := ''write-image''\<rparr>) ''aGVsbG8=''
         used_pasteboards
      = (Inl (exitError ''Failed to decode image data''), used_pasteboards)"
proof -
  let ?typed = "Args_init\<lparr>command := ''write'', type := Some ''com.test.custom''\<rparr>"
  let ?typed64 = "Args_init\<lparr>command := ''write'', type := Some ''com.test.custom'',
    isBase64 := True\<rparr>"
  let ?image = "Args_init\<lparr>command := ''write-image''\<rparr>"
  let ?argv = "[''pbhelper'', ''write-text'']"
  note T1 = failed_write_keeps_pasteboards [where P = example_platform and args = ?typed
      and input = "[CHR 0xFF]" and w = used_pasteboards and argv = ?argv]
  note T2 = failed_write_keeps_pasteboards [where P = example_platform and args = ?typed64
      and input = "''%%%''" and w = used_pasteboards and argv = ?argv]
  note T3 = failed_write_keeps_pasteboards [where P = example_platform and args = ?image
      and input = "''aGVsbG8=''" and w = used_pasteboards and argv = ?argv]
  note u = example_utf8(4)
  have ty: "type ?typed \<noteq> None" "\<not> isBase64 ?typed" "type ?typed64 \<noteq> None" "isBase64 ?typed64"
    by simp_all
  have c5: "cmdWriteText example_platform ?typed [CHR 0xFF] used_pasteboards
      = (Inl (exitError ''Invalid UTF-8 input''), used_pasteboards)"
    by (rule T1 [THEN conjunct2, THEN conjunct2, THEN conjunct2, THEN conjunct2, THEN conjunct1,
          THEN mp, OF u])
  have e1: "exit_status (fst (cmdWriteText example_platform ?typed [CHR 0xFF] used_pasteboards))
      \<noteq> 0"
    by (simp add: c5)
  have c1: "snd (cmdWriteText example_platform ?typed [CHR 0xFF] used_pasteboards)
      = used_pasteboards"
    by (rule T1 [THEN conjunct1, THEN mp, OF e1])
  have c6: "cmdWrite example_platform ?typed [CHR 0xFF] used_pasteboards
      = (Inl (exitError ''Invalid UTF-8 input''), used_pasteboards)"
    using ty u
    by (intro T1 [THEN conjunct2, THEN conjunct2, THEN conjunct2, THEN conjunct2, THEN conjunct2,
          THEN conjunct1, THEN mp] conjI)
  have e3: "exit_status (fst (cmdWrite example_platform ?typed [CHR 0xFF] used_pasteboards)) \<noteq> 0"
    by (simp add: c6)
  have c3: "snd (cmdWrite example_platform ?typed [CHR 0xFF] used_pasteboards) = used_pasteboards"
    by (rule T1 [THEN conjunct2, THEN conjunct2, THEN conjunct1, THEN mp, OF e3])
  have run: "pbhelper example_platform ?argv [CHR 0xFF] used_pasteboards
      = cmdWriteText example_platform (Args_init\<lparr>command := ''write-text''\<rparr>) [CHR 0xFF]
          used_pasteboards"
    by (simp add: pbhelper_def run_command_def)
  have e4: "exit_status (fst (pbhelper example_platform ?argv [CHR 0xFF] used_pasteboards)) \<noteq> 0"
    using u by (simp add: run cmdWriteText_def stringFromData_def)
  have c4: "snd (pbhelper example_platform ?argv [CHR 0xFF] used_pasteboards) = used_pasteboards"
    by (rule T1 [THEN conjunct2, THEN conjunct2, THEN conjunct2, THEN conjunct1, THEN mp, OF e4])
  note d8 = example_decodes(4)
  have c8: "cmdWriteImage example_platform ?typed [CHR 0xFF] used_pasteboards
      = (Inl (exitError ''Invalid base64 image data''), used_pasteboards)"
    by (rule T1 [THEN conjunct2, THEN conjunct2, THEN conjunct2, THEN conjunct2, THEN conjunct2,
          THEN conjunct2, THEN conjunct2, THEN conjunct1, THEN mp, OF d8])
  have e2: "exit_status (fst (cmdWriteImage example_platform ?typed [CHR 0xFF] used_pasteboards))
      \<noteq> 0"
    by (simp add: c8)
  have c2: "snd (cmdWriteImage example_platform ?typed [CHR 0xFF] used_pasteboards)
      = used_pasteboards"
    by (rule T1 [THEN conjunct2, THEN conjunct1, THEN mp, OF e2])
  note d7 = example_decodes(3)
  have c7: "cmdWrite example_platform ?typed64 ''%%%'' used_pasteboards
      = (Inl (exitError ''Invalid base64 data''), used_pasteboards)"
    using ty d7
    by (intro T2 [THEN conjunct2, THEN conjunct2, THEN conjunct2, THEN conjunct2, THEN conjunct2,
          THEN conjunct2, THEN conjunct1, THEN mp] conjI)
  note d9 = example_decodes(2) example_bitmaps(2)
  have c9: "cmdWriteImage example_platform ?image ''aGVsbG8='' used_pasteboards
      = (Inl (exitError ''Failed to decode image data''), used_pasteboards)"
    using d9
    by (intro T3 [THEN conjunct2, THEN conjunct2, THEN conjunct2, THEN conjunct2, THEN conjunct2,
          THEN conjunct2, THEN conjunct2, THEN conjunct2, THEN spec, THEN mp] conjI)
  show ?thesis
    using u c5 e1 c1 ty(1) ty(2) c6 e3 c3 e4 c4 d8 c8 e2 c2 d7 c7 d9 c9 by (intro conjI)
qed

subsection \<open>The format argument is not validated\<close>



end
